theory Spec2Isabelle
  imports Main "HOL-Library.AList"
begin

section \<open>The PHPStan extension: data model\<close>

text \<open>
  The extension (\<^verbatim>\<open>src/extension.ts\<close>) runs the analyser as a subprocess, parses the JSON
  report it prints and publishes one list of diagnostics per file in the editor's
  diagnostic collection. The model below follows that file function by function.

  Conventions of the embedding:
  \<^item> a JavaScript string is a \<open>string\<close>, one \<open>char\<close> per code unit, so \<open>length\<close> is
    \<^verbatim>\<open>.length\<close>;
  \<^item> a number of the report is a safe integer (\<^verbatim>\<open>Number.isSafeInteger\<close>): the line numbers
    and counters are integers, on which JavaScript's arithmetic is exact and which the
    template literal prints in decimal;
  \<^item> the report is typed as the source reads it: the positions the code tests or
    dereferences at run time (\<^verbatim>\<open>output.files\<close>, \<^verbatim>\<open>output.totals?.file_errors\<close>, the guard on
    \<^verbatim>\<open>fileData\<close>, the iteration over \<^verbatim>\<open>messages\<close>, each \<^verbatim>\<open>msg\<close>, \<^verbatim>\<open>msg.identifier\<close>) are
    dynamic, with the \<^verbatim>\<open>TypeError\<close> JavaScript raises there; the other fields of a message
    have the types of the source's cast
    \<^verbatim>\<open>Array<{message: string, line: number, identifier: string, ignorable: boolean}>\<close>;
  \<^item> the editor's API is taken as it behaves: \<^verbatim>\<open>new vscode.Diagnostic\<close> throws on an empty
    message; \<^verbatim>\<open>vscode.Uri.file\<close>, which can throw and under which several paths can be the
    same resource, is a parameter of the model, as are the subprocess (\<^verbatim>\<open>execa\<close>),
    \<^verbatim>\<open>JSON.parse\<close> and what other callbacks do while a pass awaits its subprocess;
  \<^item> the target of a diagnostic's code is the text given to \<^verbatim>\<open>vscode.Uri.parse\<close>.
\<close>

subsection \<open>Numbers\<close>

text \<open>The integers between \<^verbatim>\<open>Number.MIN_SAFE_INTEGER\<close> and \<^verbatim>\<open>Number.MAX_SAFE_INTEGER\<close>.\<close>

typedef safe_integer = "{n :: int. - 9007199254740991 \<le> n \<and> n \<le> 9007199254740991}"
  morphisms int_of SafeInteger
  by (rule exI [of _ 0]) simp

subsection \<open>The report\<close>

text \<open>A message of the report; \<^verbatim>\<open>identifier\<close> may be absent (\<open>None\<close>).\<close>

record violation =
  message :: string
  line :: safe_integer
  "identifier" :: "string option"
  ignorable :: bool

text \<open>
  The value under the key \<^verbatim>\<open>messages\<close>: an array, or a value \<^verbatim>\<open>for ... of\<close> cannot iterate
  (\<^verbatim>\<open>null\<close>, a number, a boolean, an object). An element of the array is a message object
  of the type above, or \<open>None\<close>: an element on which the body of the loop raises a
  \<^verbatim>\<open>TypeError\<close> (\<^verbatim>\<open>null\<close>, whose \<^verbatim>\<open>line\<close> cannot be read, or a value without \<^verbatim>\<open>message\<close>,
  whose \<^verbatim>\<open>message.length\<close> cannot be read).
\<close>

datatype messages_value = MessageArray "violation option list" | NotIterable

text \<open>
  A value of \<^verbatim>\<open>output.files\<close>: \<open>WithMessages\<close> is an object that has the key
  \<^verbatim>\<open>messages\<close>; \<open>NoMessages\<close> is anything else (the guard of line 145 is false).
\<close>

datatype file_data = NoMessages | WithMessages messages_value

text \<open>
  \<^verbatim>\<open>output.files\<close>: the object's entries in the order \<^verbatim>\<open>Object.entries\<close> lists them, or
  \<open>NoFiles\<close> when \<^verbatim>\<open>Object.keys(output.files)\<close> raises a \<^verbatim>\<open>TypeError\<close>: the key is absent or
  \<^verbatim>\<open>null\<close>, as in the default text \<^verbatim>\<open>{}\<close>, or the parsed value is \<^verbatim>\<open>null\<close>.
\<close>

datatype files_value = NoFiles | Files "(string \<times> file_data) list"

record totals =
  file_errors :: "safe_integer option"

record report =
  files :: files_value
  totals :: "totals option"

subsection \<open>Diagnostics and the editor\<close>

datatype severity = Error | Warning | Information | Hint

record position =
  pos_line :: int
  pos_character :: int

record range =
  range_start :: position
  range_end :: position

text \<open>
  \<^verbatim>\<open>diagnostic.code\<close> is the pair of \<^verbatim>\<open>value\<close>, which is \<^verbatim>\<open>msg.identifier\<close> as it is
  (\<open>None\<close> for \<^verbatim>\<open>undefined\<close>), and \<^verbatim>\<open>target\<close>.
\<close>

record diagnostic =
  diag_range :: range
  diag_message :: string
  diag_severity :: severity
  diag_source :: string
  diag_code_value :: "string option"
  diag_code_target :: string

text \<open>
  What the user sees beside the diagnostics: \<^verbatim>\<open>progress.report\<close> (always with increment
  100, with or without a message) and \<^verbatim>\<open>vscode.window.showErrorMessage\<close>.
\<close>

datatype notification = ProgressReport "string option" | ShowErrorMessage string

text \<open>
  The diagnostic collection files the diagnostics of a resource under the comparison key
  of its URI, a string.
\<close>

record editor =
  diagnosticCollection :: "string \<rightharpoonup> diagnostic list"
  notifications :: "notification list"

record config =
  phpCommand :: string
  command :: string
  watchGlob :: string
  dockerVolumePath :: string

definition PACKAGE_NAME :: string where
  "PACKAGE_NAME = ''phpstan''"

definition PACKAGE_TITLE :: string where
  "PACKAGE_TITLE = ''Phpstan''"

subsection \<open>The host and the promise\<close>

datatype js_error = SyntaxError | TypeError | UriError

text \<open>
  \<^verbatim>\<open>execa\<close> resolves with the standard output, or throws: an \<^verbatim>\<open>ExecaError\<close> carrying
  \<^verbatim>\<open>stdout\<close> and \<^verbatim>\<open>stderr\<close> (each a string or \<^verbatim>\<open>undefined\<close>), or any other error with its
  \<^verbatim>\<open>message\<close>.
\<close>

datatype exec_outcome =
  Exited string
  | ExecaError "string option" "string option"
  | OtherError string

text \<open>
  What the extension calls and does not define:
  \<^item> \<open>execa\<close>, the subprocess, from the command line to how it ends;
  \<^item> \<open>JSON_parse\<close>, \<open>None\<close> when \<^verbatim>\<open>JSON.parse\<close> throws a \<^verbatim>\<open>SyntaxError\<close>;
  \<^item> \<open>Uri_file\<close>: the key under which the collection files \<^verbatim>\<open>vscode.Uri.file(path)\<close>,
    or the error \<^verbatim>\<open>Uri.file\<close> throws (it refuses a path that would begin with two slashes
    once the authority is cut off). It need not be injective;
  \<^item> \<open>meanwhile\<close>: a pass is suspended once, at \<^verbatim>\<open>await execa(...)\<close>; until the subprocess
    has ended, other callbacks run, among them other passes that write to the same
    collection. \<open>meanwhile\<close> is what they do to the editor in that time.
\<close>

record host =
  execa :: "string \<Rightarrow> exec_outcome"
  JSON_parse :: "string \<Rightarrow> report option"
  Uri_file :: "string \<Rightarrow> js_error + string"
  meanwhile :: "editor \<Rightarrow> editor"

text \<open>
  How the promise of \<^verbatim>\<open>runAnalysis\<close> settles: resolved with \<^verbatim>\<open>undefined\<close> (\<open>None\<close>) or a
  boolean, or rejected.
\<close>

datatype settled = Resolved "bool option" | Rejected js_error

section \<open>JavaScript's string operations\<close>

text \<open>A string is truthy when it is present and not empty.\<close>

definition truthy :: "string option \<Rightarrow> bool" where
  "truthy s = (case s of None \<Rightarrow> False | Some t \<Rightarrow> t \<noteq> [])"

text \<open>The characters of a string that is present.\<close>

fun text_of :: "string option \<Rightarrow> string" where
  "text_of (Some t) = t"
| "text_of None = []"

fun startsWith :: "string \<Rightarrow> string \<Rightarrow> bool" where
  "startsWith s [] = True"
| "startsWith [] (p # ps) = False"
| "startsWith (c # cs) (p # ps) = (c = p \<and> startsWith cs ps)"

text \<open>\<^verbatim>\<open>indexOf\<close>: the position of the first occurrence, \<open>None\<close> for \<^verbatim>\<open>-1\<close>.\<close>

fun indexOf :: "string \<Rightarrow> string \<Rightarrow> nat option" where
  "indexOf [] searchString = (if searchString = [] then Some 0 else None)"
| "indexOf (c # cs) searchString =
     (if startsWith (c # cs) searchString then Some 0
      else map_option Suc (indexOf cs searchString))"

text \<open>
  \<^verbatim>\<open>GetSubstitution\<close> of ECMAScript for a string pattern, which has no captures: in the
  replacement \<^verbatim>\<open>$$\<close> is a dollar sign, \<^verbatim>\<open>$&\<close> the matched text, \<^verbatim>\<open>$`\<close> the text before the
  match and \<^verbatim>\<open>$'\<close> the text after it; every other character stands for itself.
\<close>

fun getSubstitution :: "string \<Rightarrow> string \<Rightarrow> nat \<Rightarrow> string \<Rightarrow> string" where
  "getSubstitution matched str pos [] = []"
| "getSubstitution matched str pos [c] = [c]"
| "getSubstitution matched str pos (c # d # template) =
     (if c = CHR ''$'' \<and> d = CHR ''$'' then CHR ''$'' # getSubstitution matched str pos template
      else if c = CHR ''$'' \<and> d = CHR ''&'' then matched @ getSubstitution matched str pos template
      else if c = CHR ''$'' \<and> d = CHR 0x60 then take pos str @ getSubstitution matched str pos template
      else if c = CHR ''$'' \<and> d = CHR 0x27
        then drop (pos + length matched) str @ getSubstitution matched str pos template
      else c # getSubstitution matched str pos (d # template))"

text \<open>\<^verbatim>\<open>str.replace(searchString, replaceValue)\<close> with two strings: the first occurrence only.\<close>

definition replace :: "string \<Rightarrow> string \<Rightarrow> string \<Rightarrow> string" where
  "replace str searchString replaceValue =
     (case indexOf str searchString of
        None \<Rightarrow> str
      | Some pos \<Rightarrow>
          take pos str @ getSubstitution searchString str pos replaceValue
            @ drop (pos + length searchString) str)"

text \<open>
  A safe integer as the template literal prints it: its decimal digits, after a minus
  sign when it is negative.
\<close>

fun digits :: "nat \<Rightarrow> string" where
  "digits n =
     (if n < 10 then [''0123456789'' ! n]
      else digits (n div 10) @ [''0123456789'' ! (n mod 10)])"

declare digits.simps [simp del]

definition number_toString :: "safe_integer \<Rightarrow> string" where
  "number_toString n =
     (if int_of n < 0 then CHR ''-'' # digits (nat (- int_of n)) else digits (nat (int_of n)))"

text \<open>A value that is absent prints as \<^verbatim>\<open>undefined\<close>.\<close>

fun string_toString :: "string option \<Rightarrow> string" where
  "string_toString (Some t) = t"
| "string_toString None = ''undefined''"

section \<open>The extension\<close>

subsection \<open>prepareCommand\<close>

definition prepareCommand :: "string \<Rightarrow> config \<Rightarrow> string option \<Rightarrow> string" where
  "prepareCommand ws cfg filePath =
     (case filePath of
        Some p \<Rightarrow>
          (if p \<noteq> []
           then phpCommand cfg @ '' '' @ command cfg @ '' '' @ replace p ws ''.''
           else phpCommand cfg @ '' '' @ command cfg)
      | None \<Rightarrow> phpCommand cfg @ '' '' @ command cfg)"

subsection \<open>processOutput\<close>

text \<open>
  The body of the loop over \<^verbatim>\<open>messages\<close> (lines 149 to 164). The constructor of
  \<^verbatim>\<open>vscode.Diagnostic\<close> throws a \<^verbatim>\<open>TypeError\<close> when the message is empty.
\<close>

definition diagnostic_of :: "violation \<Rightarrow> js_error + diagnostic" where
  "diagnostic_of msg =
     (let l = max 0 (int_of (line msg) - 1) in
      if message msg = [] then Inl TypeError
      else Inr
        \<lparr> diag_range =
            \<lparr> range_start = \<lparr> pos_line = l, pos_character = 0 \<rparr>,
              range_end = \<lparr> pos_line = l, pos_character = int (length (message msg)) \<rparr> \<rparr>,
          diag_message = message msg,
          diag_severity = Error,
          diag_source = PACKAGE_TITLE,
          diag_code_value = identifier msg,
          diag_code_target =
            ''https://phpstan.org/error-identifiers/'' @ string_toString (identifier msg) \<rparr>)"

text \<open>
  The loop over \<^verbatim>\<open>messages\<close>, pushing onto \<^verbatim>\<open>fileDiagnostics\<close>; the body raises on an
  element that is not a message object, and on a message without text.
\<close>

fun push_messages :: "diagnostic list \<Rightarrow> violation option list \<Rightarrow> js_error + diagnostic list" where
  "push_messages fileDiagnostics [] = Inr fileDiagnostics"
| "push_messages fileDiagnostics (None # msgs) = Inl TypeError"
| "push_messages fileDiagnostics (Some msg # msgs) =
     (case diagnostic_of msg of
        Inl e \<Rightarrow> Inl e
      | Inr diagnostic \<Rightarrow> push_messages (fileDiagnostics @ [diagnostic]) msgs)"

fun fileDiagnostics_of :: "file_data \<Rightarrow> js_error + diagnostic list" where
  "fileDiagnostics_of NoMessages = Inr []"
| "fileDiagnostics_of (WithMessages NotIterable) = Inl TypeError"
| "fileDiagnostics_of (WithMessages (MessageArray msgs)) = push_messages [] msgs"

text \<open>
  The loop over \<^verbatim>\<open>Object.entries(output.files)\<close>, filling the local map
  \<^verbatim>\<open>diagnosticsByFile\<close>, which is keyed by the rewritten path. A JavaScript \<^verbatim>\<open>Map\<close> keeps a
  key's first position and its last value, as \<open>AList.update\<close> does.
\<close>

fun collect ::
  "string \<Rightarrow> config \<Rightarrow> (string \<times> diagnostic list) list \<Rightarrow> (string \<times> file_data) list
    \<Rightarrow> js_error + (string \<times> diagnostic list) list" where
  "collect ws cfg diagnosticsByFile [] = Inr diagnosticsByFile"
| "collect ws cfg diagnosticsByFile ((filePath, fileData) # entries) =
     (case fileDiagnostics_of fileData of
        Inl e \<Rightarrow> Inl e
      | Inr fileDiagnostics \<Rightarrow>
          collect ws cfg
            (if length fileDiagnostics > 0
             then AList.update (replace filePath (dockerVolumePath cfg) ws) fileDiagnostics
                    diagnosticsByFile
             else diagnosticsByFile)
            entries)"

text \<open>
  The last loop: \<^verbatim>\<open>diagnosticCollection.set(vscode.Uri.file(filePath), diagnostics)\<close> for
  every entry of the local map, in its order. When \<^verbatim>\<open>Uri.file\<close> throws, the loop ends
  there: the entries before that one have been written. The result is the error, if
  any, and the collection.
\<close>

fun set_all ::
  "host \<Rightarrow> (string \<times> diagnostic list) list \<Rightarrow> (string \<rightharpoonup> diagnostic list)
    \<Rightarrow> js_error option \<times> (string \<rightharpoonup> diagnostic list)" where
  "set_all h [] dc = (None, dc)"
| "set_all h ((filePath, diagnostics) # entries) dc =
     (case Uri_file h filePath of
        Inl e \<Rightarrow> (Some e, dc)
      | Inr uri \<Rightarrow> set_all h entries (dc(uri \<mapsto> diagnostics)))"

text \<open>
  An exception inside the executor of \<^verbatim>\<open>new Promise\<close> rejects the promise. Nothing has
  been written to the collection when the first loop raises; the write loop keeps what
  it has written when it raises.
\<close>

definition processOutput :: "host \<Rightarrow> string \<Rightarrow> config \<Rightarrow> report \<Rightarrow> editor \<Rightarrow> settled \<times> editor" where
  "processOutput h ws cfg output ed =
     (case files output of
        NoFiles \<Rightarrow> (Rejected TypeError, ed)
      | Files entries \<Rightarrow>
          (if length entries = 0 then (Resolved (Some False), ed)
           else
             (case collect ws cfg [] entries of
                Inl e \<Rightarrow> (Rejected e, ed)
              | Inr diagnosticsByFile \<Rightarrow>
                  (case set_all h diagnosticsByFile (diagnosticCollection ed) of
                     (None, dc) \<Rightarrow> (Resolved (Some True), ed\<lparr>diagnosticCollection := dc\<rparr>)
                   | (Some e, dc) \<Rightarrow> (Rejected e, ed\<lparr>diagnosticCollection := dc\<rparr>)))))"

subsection \<open>handle\<close>

text \<open>
  Lines 119 to 124. \<^verbatim>\<open>output.totals?.file_errors || 0\<close> is 0 when \<^verbatim>\<open>totals\<close> or
  \<^verbatim>\<open>file_errors\<close> is absent, and when \<^verbatim>\<open>file_errors\<close> is 0.
\<close>

definition violationCount :: "report \<Rightarrow> safe_integer" where
  "violationCount output =
     (case totals output of
        None \<Rightarrow> SafeInteger 0
      | Some t \<Rightarrow>
          (case file_errors t of
             None \<Rightarrow> SafeInteger 0
           | Some n \<Rightarrow> if int_of n = 0 then SafeInteger 0 else n))"

definition status_message :: "report \<Rightarrow> string" where
  "status_message output =
     (if int_of (violationCount output) > 0
      then ''found '' @ number_toString (violationCount output) @ '' violations''
      else ''done'')"

text \<open>\<^verbatim>\<open>progress?.report\<close>: nothing is reported when \<^verbatim>\<open>progress\<close> is \<^verbatim>\<open>null\<close>.\<close>

definition report_progress :: "bool \<Rightarrow> string option \<Rightarrow> editor \<Rightarrow> editor" where
  "report_progress progress msg ed =
     (if progress then ed\<lparr>notifications := notifications ed @ [ProgressReport msg]\<rparr> else ed)"

definition showErrorMessage :: "string \<Rightarrow> editor \<Rightarrow> editor" where
  "showErrorMessage msg ed = ed\<lparr>notifications := notifications ed @ [ShowErrorMessage msg]\<rparr>"

text \<open>
  \<^verbatim>\<open>finally\<close> runs its callback however the promise of \<^verbatim>\<open>processOutput\<close> settles, and
  passes the settlement on.
\<close>

definition handle :: "host \<Rightarrow> string \<Rightarrow> config \<Rightarrow> report \<Rightarrow> bool \<Rightarrow> editor \<Rightarrow> settled \<times> editor" where
  "handle h ws cfg output progress ed =
     (let cleared = ed\<lparr>diagnosticCollection := Map.empty\<rparr>;
          msg = status_message output;
          (result, ed') = processOutput h ws cfg output cleared
      in (result, report_progress progress (Some msg) ed'))"

subsection \<open>runAnalysis\<close>

text \<open>
  Line 56, \<^verbatim>\<open>filePath && diagnosticCollection.has(vscode.Uri.file(filePath))\<close>: read from
  the collection as it is when the pass starts, before the subprocess is invoked.
\<close>

definition check_of :: "host \<Rightarrow> string option \<Rightarrow> editor \<Rightarrow> js_error + bool" where
  "check_of h filePath ed =
     (if truthy filePath
      then (case Uri_file h (text_of filePath) of
              Inl e \<Rightarrow> Inl e
            | Inr uri \<Rightarrow> Inr (diagnosticCollection ed uri \<noteq> None))
      else Inr False)"

text \<open>
  The \<^verbatim>\<open>try\<close> block of lines 59 to 93, from the editor as it is when the subprocess has
  ended: the text to parse, or the editor after an abort (\<^verbatim>\<open>return Promise.resolve()\<close>).
\<close>

definition invoke :: "host \<Rightarrow> string \<Rightarrow> bool \<Rightarrow> editor \<Rightarrow> editor + string" where
  "invoke h cmnd progress ed =
     (case execa h cmnd of
        Exited stdout \<Rightarrow> Inr stdout
      | ExecaError stdout stderr \<Rightarrow>
          (if truthy stderr \<and> \<not> truthy stdout
           then Inl (showErrorMessage (PACKAGE_TITLE @ '': '' @ text_of stderr)
                      (report_progress progress None ed))
           else if truthy stdout then Inr (text_of stdout)
           else Inr ''{}'')
      | OtherError msg \<Rightarrow> Inl (report_progress progress (Some msg) ed))"

text \<open>Line 99: \<^verbatim>\<open>diagnosticCollection.delete(vscode.Uri.file(filePath))\<close>.\<close>

definition delete_file :: "host \<Rightarrow> string option \<Rightarrow> editor \<Rightarrow> js_error + editor" where
  "delete_file h filePath ed =
     (case Uri_file h (text_of filePath) of
        Inl e \<Rightarrow> Inl e
      | Inr uri \<Rightarrow> Inr (ed\<lparr>diagnosticCollection := (diagnosticCollection ed)(uri := None)\<rparr>))"

text \<open>
  The pass: \<open>ed\<close> is the editor when it starts, \<open>meanwhile h ed\<close> the editor when the
  subprocess has ended.
\<close>

definition runAnalysis ::
  "host \<Rightarrow> string \<Rightarrow> config \<Rightarrow> bool \<Rightarrow> string option \<Rightarrow> editor \<Rightarrow> settled \<times> editor" where
  "runAnalysis h ws cfg progress filePath ed =
     (case check_of h filePath ed of
        Inl e \<Rightarrow> (Rejected e, ed)
      | Inr check \<Rightarrow>
          (case invoke h (prepareCommand ws cfg filePath) progress (meanwhile h ed) of
             Inl aborted \<Rightarrow> (Resolved None, aborted)
           | Inr text \<Rightarrow>
               (case JSON_parse h text of
                  None \<Rightarrow> (Rejected SyntaxError, meanwhile h ed)
                | Some output \<Rightarrow>
                    (case files output of
                       NoFiles \<Rightarrow> (Rejected TypeError, meanwhile h ed)
                     | Files entries \<Rightarrow>
                         (case (if length entries = 0 \<and> check
                                then delete_file h filePath (meanwhile h ed)
                                else Inr (meanwhile h ed)) of
                            Inl e \<Rightarrow> (Rejected e, meanwhile h ed)
                          | Inr ed1 \<Rightarrow>
                              if truthy filePath
                              then processOutput h ws cfg output ed1
                              else handle h ws cfg output progress ed1)))))"

section \<open>Notions of the specification\<close>

text \<open>
  The specification speaks of files for which a report has at least one violation, or
  finding. A file entry has one when its \<^verbatim>\<open>messages\<close> is an array that is not empty.
\<close>

fun has_violation :: "file_data \<Rightarrow> bool" where
  "has_violation (WithMessages (MessageArray msgs)) = (msgs \<noteq> [])"
| "has_violation fileData = False"

text \<open>
  The paths of the files of a report that have at least one violation, each rewritten as
  line 172 does; and the keys of these paths in the collection.
\<close>

definition flagged :: "string \<Rightarrow> config \<Rightarrow> (string \<times> file_data) list \<Rightarrow> string list" where
  "flagged ws cfg entries =
     map (\<lambda>(filePath, fileData). replace filePath (dockerVolumePath cfg) ws)
       (filter (\<lambda>(filePath, fileData). has_violation fileData) entries)"

definition flagged_keys :: "host \<Rightarrow> string \<Rightarrow> config \<Rightarrow> (string \<times> file_data) list \<Rightarrow> string set" where
  "flagged_keys h ws cfg entries =
     set (concat (map (\<lambda>p. case Uri_file h p of Inl e \<Rightarrow> [] | Inr uri \<Rightarrow> [uri])
                   (flagged ws cfg entries)))"

text \<open>No file is in the store with an empty list of diagnostics.\<close>

definition no_empty_entry :: "(string \<rightharpoonup> diagnostic list) \<Rightarrow> bool" where
  "no_empty_entry dc = (\<forall>p. dc p \<noteq> Some [])"


text \<open>
  A pass failed when it did not resolve with the boolean of \<^verbatim>\<open>processOutput\<close>: it was
  aborted in the \<^verbatim>\<open>catch\<close> block (resolved with \<^verbatim>\<open>undefined\<close>) or its promise was rejected.
\<close>

fun failed :: "settled \<Rightarrow> bool" where
  "failed (Resolved (Some b)) = False"
| "failed (Resolved None) = True"
| "failed (Rejected e) = True"

text \<open>
  The number a string of decimal digits denotes. A number has one decimal numeral without
  a leading zero.
\<close>

definition digit_value :: "char \<Rightarrow> nat" where
  "digit_value c = of_char c - 48"

definition decimal_value :: "string \<Rightarrow> nat" where
  "decimal_value ds = foldl (\<lambda>a c. 10 * a + digit_value c) 0 ds"

definition decimal_numeral :: "string \<Rightarrow> bool" where
  "decimal_numeral ds =
     (ds \<noteq> [] \<and> set ds \<subseteq> set ''0123456789'' \<and> (ds = ''0'' \<or> hd ds \<noteq> CHR ''0''))"

section \<open>Example inputs\<close>

definition example_ws :: string where
  "example_ws = ''/home/user/proj''"

definition example_config :: config where
  "example_config =
     \<lparr> phpCommand = ''php'',
       command = ''vendor/bin/phpstan analyse --error-format=json'',
       watchGlob = ''phpstan.neon'',
       dockerVolumePath = ''/app'' \<rparr>"

definition example_violation :: violation where
  "example_violation =
     \<lparr> message = ''Undefined method.'', line = SafeInteger 10,
       identifier = Some ''method.notFound'', ignorable = False \<rparr>"

definition example_report :: report where
  "example_report =
     \<lparr> files = Files [(''/app/src/Foo.php'', WithMessages (MessageArray [Some example_violation]))],
       totals = Some \<lparr> file_errors = Some (SafeInteger 1) \<rparr> \<rparr>"

text \<open>A report with no file, and one that lists a file with an empty \<^verbatim>\<open>messages\<close> array.\<close>

definition empty_report :: report where
  "empty_report = \<lparr> files = Files [], totals = Some \<lparr> file_errors = Some (SafeInteger 0) \<rparr> \<rparr>"

definition clean_file_report :: report where
  "clean_file_report =
     \<lparr> files = Files [(''/app/src/Foo.php'', WithMessages (MessageArray []))],
       totals = Some \<lparr> file_errors = Some (SafeInteger 0) \<rparr> \<rparr>"

text \<open>
  A report whose second file entry has \<^verbatim>\<open>"messages": null\<close>, as in
  \<^verbatim>\<open>{"files":{"/app/src/Foo.php":{"messages":[...]},"/app/src/Bar.php":{"messages":null}}}\<close>.
\<close>

definition malformed_report :: report where
  "malformed_report =
     \<lparr> files = Files [(''/app/src/Foo.php'', WithMessages (MessageArray [Some example_violation])),
                      (''/app/src/Bar.php'', WithMessages NotIterable)],
       totals = None \<rparr>"


text \<open>A report whose second file has a path that \<^verbatim>\<open>Uri.file\<close> refuses.\<close>

definition refused_path_report :: report where
  "refused_path_report =
     \<lparr> files = Files [(''/app/src/Foo.php'', WithMessages (MessageArray [Some example_violation])),
                      (''////x.php'', WithMessages (MessageArray [Some example_violation]))],
       totals = None \<rparr>"

definition old_diagnostic :: diagnostic where
  "old_diagnostic =
     \<lparr> diag_range =
         \<lparr> range_start = \<lparr> pos_line = 2, pos_character = 0 \<rparr>,
           range_end = \<lparr> pos_line = 2, pos_character = 3 \<rparr> \<rparr>,
       diag_message = ''Old'',
       diag_severity = Error,
       diag_source = ''Phpstan'',
       diag_code_value = Some ''old.rule'',
       diag_code_target = ''https://phpstan.org/error-identifiers/old.rule'' \<rparr>"

text \<open>An editor that shows one diagnostic under the given key, and one that shows none.\<close>

definition editor_with :: "string \<Rightarrow> editor" where
  "editor_with uri = \<lparr> diagnosticCollection = [uri \<mapsto> [old_diagnostic]], notifications = [] \<rparr>"

definition empty_editor :: editor where
  "empty_editor = \<lparr> diagnosticCollection = Map.empty, notifications = [] \<rparr>"

text \<open>
  \<^verbatim>\<open>vscode.Uri.file\<close> as the editor defines it on a POSIX system, with the URI's text as
  the key, for paths whose characters that text leaves as they are: two leading slashes
  introduce an authority, which ends at the next slash; a path without a leading slash
  gets one; and a path that still begins with two slashes when there is no authority is
  refused. The paths \<^verbatim>\<open>/x\<close> and \<^verbatim>\<open>///x\<close> are the same resource, and \<^verbatim>\<open>////x\<close> is refused.
\<close>

definition example_Uri_file :: "string \<Rightarrow> js_error + string" where
  "example_Uri_file path =
     (if startsWith path ''//''
      then (case indexOf (drop 2 path) ''/'' of
              None \<Rightarrow> Inr (''file://'' @ drop 2 path @ ''/'')
            | Some idx \<Rightarrow>
                (if take idx (drop 2 path) = [] \<and> startsWith (drop idx (drop 2 path)) ''//''
                 then Inl UriError
                 else Inr (''file://'' @ take idx (drop 2 path) @ drop idx (drop 2 path))))
      else if startsWith path ''/'' then Inr (''file://'' @ path)
      else Inr (''file:///'' @ path))"

text \<open>
  A host whose subprocess always ends the same way, whose parser reads the given text as
  the given report and \<^verbatim>\<open>{}\<close> as an object without \<^verbatim>\<open>files\<close>, and in whose editor nothing
  else happens while a pass awaits its subprocess.
\<close>

definition example_host :: "exec_outcome \<Rightarrow> string \<Rightarrow> report \<Rightarrow> host" where
  "example_host outcome text output =
     \<lparr> execa = (\<lambda>cmnd. outcome),
       JSON_parse = (\<lambda>t. if t = text then Some output
                          else if t = ''{}'' then Some \<lparr> files = NoFiles, totals = None \<rparr>
                          else None),
       Uri_file = example_Uri_file,
       meanwhile = (\<lambda>ed. ed) \<rparr>"

text \<open>
  Another pass that ends while this one awaits its subprocess, and publishes a diagnostic
  under the given key.
\<close>

definition other_pass :: "string \<Rightarrow> editor \<Rightarrow> editor" where
  "other_pass uri ed =
     ed\<lparr>diagnosticCollection := (diagnosticCollection ed)(uri \<mapsto> [old_diagnostic])\<rparr>"

definition foo_uri :: string where
  "foo_uri = ''file:///home/user/proj/src/Foo.php''"

definition bar_uri :: string where
  "bar_uri = ''file:///home/user/proj/src/Bar.php''"

section \<open>Numbers and strings\<close>

lemma int_of_SafeInteger [simp]:
  "- 9007199254740991 \<le> n \<Longrightarrow> n \<le> 9007199254740991 \<Longrightarrow> int_of (SafeInteger n) = n"
  by (simp add: SafeInteger_inverse)

lemma getSubstitution_plain:
  "CHR ''$'' \<notin> set template \<Longrightarrow> getSubstitution matched str pos template = template"
  by (induction matched str pos template rule: getSubstitution.induct) auto

lemma startsWith_append: "startsWith (p @ r) p"
  by (induction p) auto

lemma indexOf_Nil: "indexOf s [] = Some 0"
  by (cases s) auto

lemma indexOf_prefix: "indexOf (p @ r) p = Some 0"
proof (cases "p @ r")
  case Nil
  then show ?thesis by simp
next
  case (Cons c cs)
  have "startsWith (p @ r) p" by (rule startsWith_append)
  with Cons show ?thesis by simp
qed

lemma indexOf_first:
  "\<forall>j<length a. \<not> startsWith (drop j (a @ pat @ b)) pat \<Longrightarrow>
   indexOf (a @ pat @ b) pat = Some (length a)"
proof (induction a)
  case Nil
  show ?case by (simp add: indexOf_prefix)
next
  case (Cons c a)
  from Cons.prems have "\<not> startsWith (drop 0 ((c # a) @ pat @ b)) pat" by blast
  then have h: "\<not> startsWith (c # a @ pat @ b) pat" by simp
  have "\<forall>j<length a. \<not> startsWith (drop j (a @ pat @ b)) pat"
  proof (intro allI impI)
    fix j assume "j < length a"
    then have "Suc j < length (c # a)" by simp
    with Cons.prems have "\<not> startsWith (drop (Suc j) ((c # a) @ pat @ b)) pat" by blast
    then show "\<not> startsWith (drop j (a @ pat @ b)) pat" by simp
  qed
  from Cons.IH [OF this] h show ?case by simp
qed


text \<open>The printer of numbers writes the decimal numeral of its argument.\<close>

lemma digit_char: "k < 10 \<Longrightarrow> digit_value (''0123456789'' ! k) = k"
proof -
  assume "k < 10"
  then have "k \<in> {0, 1, 2, 3, 4, 5, 6, 7, 8, 9}" by auto
  then show ?thesis by (auto simp: digit_value_def)
qed

lemma decimal_value_snoc: "decimal_value (ds @ [c]) = 10 * decimal_value ds + digit_value c"
  by (simp add: decimal_value_def)

lemma decimal_value_digits: "decimal_value (digits n) = n"
proof (induction n rule: digits.induct)
  case (1 n)
  show ?case
  proof (cases "n < 10")
    case True
    then show ?thesis by (simp add: digits.simps [of n] decimal_value_def digit_char)
  next
    case False
    with "1.IH" have "decimal_value (digits (n div 10)) = n div 10" by simp
    with False show ?thesis
      by (simp add: digits.simps [of n] decimal_value_snoc digit_char)
  qed
qed

lemma digits_not_Nil: "digits n \<noteq> []"
  by (simp add: digits.simps [of n])

lemma set_digits: "set (digits n) \<subseteq> set ''0123456789''"
proof (induction n rule: digits.induct)
  case (1 n)
  have m: "''0123456789'' ! k \<in> set ''0123456789''" if "k < 10" for k
    using that by (intro nth_mem) simp
  show ?case
  proof (cases "n < 10")
    case True
    with m [of n] show ?thesis by (simp add: digits.simps [of n])
  next
    case False
    with "1.IH" have "set (digits (n div 10)) \<subseteq> set ''0123456789''" by simp
    with False m [of "n mod 10"] show ?thesis by (simp add: digits.simps [of n])
  qed
qed

lemma hd_digits: "0 < n \<Longrightarrow> hd (digits n) \<noteq> CHR ''0''"
proof (induction n rule: digits.induct)
  case (1 n)
  show ?case
  proof (cases "n < 10")
    case True
    then have d: "hd (digits n) = ''0123456789'' ! n" by (simp add: digits.simps [of n])
    from True "1.prems" have "n \<in> {1, 2, 3, 4, 5, 6, 7, 8, 9}" by auto
    then show ?thesis unfolding d by auto
  next
    case False
    then have "0 < n div 10" by simp
    with "1.IH" False have "hd (digits (n div 10)) \<noteq> CHR ''0''" by simp
    with False show ?thesis by (simp add: digits.simps [of n] digits_not_Nil)
  qed
qed

lemma decimal_numeral_digits: "0 < n \<Longrightarrow> decimal_numeral (digits n)"
  unfolding decimal_numeral_def using digits_not_Nil [of n] set_digits [of n] hd_digits [of n]
  by blast

section \<open>The loops of processOutput\<close>

lemma push_messages_length:
  "push_messages acc msgs = Inr ds \<Longrightarrow> length ds = length acc + length msgs"
  by (induction acc msgs rule: push_messages.induct) (auto split: sum.splits)

text \<open>The loop produces the record of each message, in order, after what it started with.\<close>

lemma push_messages_records:
  "push_messages acc (map Some msgs) = Inr ds \<Longrightarrow>
   take (length acc) ds = acc \<and> map Inr (drop (length acc) ds) = map diagnostic_of msgs"
proof (induction msgs arbitrary: acc)
  case Nil
  then show ?case by simp
next
  case (Cons m msgs)
  from Cons.prems obtain d where d: "diagnostic_of m = Inr d"
    by (cases "diagnostic_of m") auto
  with Cons.prems have "push_messages (acc @ [d]) (map Some msgs) = Inr ds" by simp
  from Cons.IH [OF this]
  have t: "take (Suc (length acc)) ds = acc @ [d]"
    and r: "map Inr (drop (Suc (length acc)) ds) = map diagnostic_of msgs"
    by simp_all
  from t have l: "Suc (length acc) \<le> length ds"
    by (metis length_append_singleton length_take min.cobounded1)
  from t have "take (length acc) ds = acc"
    by (metis butlast_snoc butlast_take diff_Suc_1 l)
  moreover from t l have "ds ! length acc = d"
    by (metis lessI nth_append_length nth_take)
  with l have "drop (length acc) ds = d # drop (Suc (length acc)) ds"
    by (metis Cons_nth_drop_Suc Suc_le_lessD)
  ultimately show ?case using r d by simp
qed

lemma push_messages_total:
  "\<forall>m \<in> set msgs. message m \<noteq> [] \<Longrightarrow> \<exists>ds. push_messages acc (map Some msgs) = Inr ds"
  by (induction msgs arbitrary: acc) (auto simp: diagnostic_of_def Let_def)

lemma fileDiagnostics_of_has_violation:
  "fileDiagnostics_of fileData = Inr ds \<Longrightarrow> (ds \<noteq> []) = has_violation fileData"
  by (cases fileData rule: fileDiagnostics_of.cases) (auto dest: push_messages_length)

lemma set_update_cases:
  "(k', v') \<in> set (AList.update k v al) \<Longrightarrow> (k', v') = (k, v) \<or> (k', v') \<in> set al"
  by (induction al) (auto split: if_splits)

lemma flagged_Nil: "flagged ws cfg [] = []"
  by (simp add: flagged_def)

lemma flagged_Cons:
  "flagged ws cfg ((filePath, fileData) # entries) =
     (if has_violation fileData then [replace filePath (dockerVolumePath cfg) ws] else [])
       @ flagged ws cfg entries"
  by (simp add: flagged_def)

lemma flagged_keys_iff:
  "uri \<in> flagged_keys h ws cfg entries
     \<longleftrightarrow> (\<exists>p \<in> set (flagged ws cfg entries). Uri_file h p = Inr uri)"
proof
  assume "uri \<in> flagged_keys h ws cfg entries"
  then show "\<exists>p \<in> set (flagged ws cfg entries). Uri_file h p = Inr uri"
    by (auto simp: flagged_keys_def split: sum.splits)
next
  assume "\<exists>p \<in> set (flagged ws cfg entries). Uri_file h p = Inr uri"
  then obtain p where "p \<in> set (flagged ws cfg entries)" "Uri_file h p = Inr uri" by blast
  then show "uri \<in> flagged_keys h ws cfg entries"
    by (force simp: flagged_keys_def)
qed

text \<open>The keys of the local map are the keys it started with and the flagged paths.\<close>

lemma collect_keys:
  "collect ws cfg acc entries = Inr m \<Longrightarrow>
   fst ` set m = fst ` set acc \<union> set (flagged ws cfg entries)"
proof (induction entries arbitrary: acc)
  case Nil
  then show ?case by (simp add: flagged_Nil)
next
  case (Cons e entries)
  obtain filePath fileData where e: "e = (filePath, fileData)" by (cases e)
  from Cons.prems e obtain ds where ds: "fileDiagnostics_of fileData = Inr ds"
    by (cases "fileDiagnostics_of fileData") auto
  have hv: "(ds \<noteq> []) = has_violation fileData"
    by (rule fileDiagnostics_of_has_violation [OF ds])
  show ?case
  proof (cases "ds = []")
    case True
    with Cons.prems e ds have "collect ws cfg acc entries = Inr m" by simp
    from Cons.IH [OF this] True hv e show ?thesis by (simp add: flagged_Cons)
  next
    case False
    with Cons.prems e ds
    have "collect ws cfg (AList.update (replace filePath (dockerVolumePath cfg) ws) ds acc) entries = Inr m"
      by simp
    from Cons.IH [OF this] False hv e show ?thesis
      by (simp add: flagged_Cons dom_update)
  qed
qed

text \<open>No empty list enters the local map.\<close>

lemma collect_values:
  "collect ws cfg acc entries = Inr m \<Longrightarrow> \<forall>(k, v) \<in> set acc. v \<noteq> [] \<Longrightarrow> \<forall>(k, v) \<in> set m. v \<noteq> []"
proof (induction entries arbitrary: acc)
  case Nil
  then show ?case by simp
next
  case (Cons e entries)
  obtain filePath fileData where e: "e = (filePath, fileData)" by (cases e)
  from Cons.prems e obtain ds where ds: "fileDiagnostics_of fileData = Inr ds"
    by (cases "fileDiagnostics_of fileData") auto
  show ?case
  proof (cases "ds = []")
    case True
    with Cons.prems e ds have "collect ws cfg acc entries = Inr m" by simp
    from Cons.IH [OF this Cons.prems(2)] show ?thesis .
  next
    case False
    let ?acc = "AList.update (replace filePath (dockerVolumePath cfg) ws) ds acc"
    from False Cons.prems e ds have c: "collect ws cfg ?acc entries = Inr m" by simp
    have "\<forall>(k, v) \<in> set ?acc. v \<noteq> []"
      using Cons.prems(2) False by (auto dest: set_update_cases)
    from Cons.IH [OF c this] show ?thesis .
  qed
qed

text \<open>The write loop writes under the keys of the paths it is given, and nowhere else.\<close>

lemma set_all_other:
  "\<forall>p \<in> fst ` set m. Uri_file h p \<noteq> Inr uri \<Longrightarrow> snd (set_all h m dc) uri = dc uri"
proof (induction m arbitrary: dc)
  case Nil
  show ?case by simp
next
  case (Cons e m)
  obtain p ds where e: "e = (p, ds)" by (cases e)
  show ?case
  proof (cases "Uri_file h p")
    case (Inl err)
    with e show ?thesis by simp
  next
    case (Inr k)
    with Cons.prems e have "k \<noteq> uri" by auto
    moreover from Cons.prems have "\<forall>p \<in> fst ` set m. Uri_file h p \<noteq> Inr uri" by simp
    from Cons.IH [OF this] have "snd (set_all h m (dc(k \<mapsto> ds))) uri = (dc(k \<mapsto> ds)) uri" .
    ultimately show ?thesis using e Inr by simp
  qed
qed

lemma set_all_dom:
  "fst (set_all h m dc) = None \<Longrightarrow>
   dom (snd (set_all h m dc)) = dom dc \<union> {uri. \<exists>p \<in> fst ` set m. Uri_file h p = Inr uri}"
proof (induction m arbitrary: dc)
  case Nil
  show ?case by simp
next
  case (Cons e m)
  obtain p ds where e: "e = (p, ds)" by (cases e)
  from Cons.prems e obtain k where k: "Uri_file h p = Inr k"
    by (cases "Uri_file h p") auto
  with Cons.prems e have "fst (set_all h m (dc(k \<mapsto> ds))) = None" by simp
  from Cons.IH [OF this]
  have "dom (snd (set_all h m (dc(k \<mapsto> ds))))
      = dom (dc(k \<mapsto> ds)) \<union> {uri. \<exists>p \<in> fst ` set m. Uri_file h p = Inr uri}" .
  with e k show ?case by auto
qed

lemma set_all_values:
  "snd (set_all h m dc) uri = Some ds \<Longrightarrow> dc uri = Some ds \<or> ds \<in> snd ` set m"
proof (induction m arbitrary: dc)
  case Nil
  then show ?case by simp
next
  case (Cons e m)
  obtain p v where e: "e = (p, v)" by (cases e)
  show ?case
  proof (cases "Uri_file h p")
    case (Inl err)
    with Cons.prems e show ?thesis by simp
  next
    case (Inr k)
    with Cons.prems e have "snd (set_all h m (dc(k \<mapsto> v))) uri = Some ds" by simp
    from Cons.IH [OF this] have "(dc(k \<mapsto> v)) uri = Some ds \<or> ds \<in> snd ` set m" .
    with e show ?thesis by (cases "uri = k") auto
  qed
qed


section \<open>processOutput and handle\<close>

lemma processOutput_notifications:
  "notifications (snd (processOutput h ws cfg output ed)) = notifications ed"
  by (simp add: processOutput_def split: files_value.splits sum.splits prod.splits option.splits)


lemma processOutput_failed_entries:
  "files output = Files entries \<Longrightarrow> failed (fst (processOutput h ws cfg output ed)) \<Longrightarrow> entries \<noteq> []"
  by (auto simp: processOutput_def)

lemma processOutput_store:
  "files output = Files entries \<Longrightarrow> collect ws cfg [] entries = Inr m \<Longrightarrow>
   diagnosticCollection (snd (processOutput h ws cfg output ed))
     = snd (set_all h m (diagnosticCollection ed))"
  by (cases entries) (auto simp: processOutput_def split: prod.splits option.splits)



lemma processOutput_dom:
  assumes "files output = Files entries"
    and "fst (processOutput h ws cfg output ed) = Resolved b"
  shows "dom (diagnosticCollection (snd (processOutput h ws cfg output ed)))
           = dom (diagnosticCollection ed) \<union> flagged_keys h ws cfg entries"
proof (cases "entries = []")
  case True
  with assms(1) show ?thesis by (simp add: processOutput_def flagged_keys_def flagged_Nil)
next
  case False
  with assms obtain m where m: "collect ws cfg [] entries = Inr m"
    by (cases "collect ws cfg [] entries") (auto simp: processOutput_def)
  obtain r dc where s: "set_all h m (diagnosticCollection ed) = (r, dc)"
    by (cases "set_all h m (diagnosticCollection ed)")
  with m False assms have r: "r = None"
    by (cases r) (auto simp: processOutput_def)
  from collect_keys [OF m] have k: "fst ` set m = set (flagged ws cfg entries)" by simp
  from set_all_dom [of h m "diagnosticCollection ed"] s r k
  have "dom dc = dom (diagnosticCollection ed) \<union> flagged_keys h ws cfg entries"
    by (auto simp: flagged_keys_iff)
  with m s r False assms(1) show ?thesis
    by (simp add: processOutput_def)
qed

lemma processOutput_other:
  assumes "files output = Files entries" and "uri \<notin> flagged_keys h ws cfg entries"
  shows "diagnosticCollection (snd (processOutput h ws cfg output ed)) uri
           = diagnosticCollection ed uri"
proof (cases "collect ws cfg [] entries")
  case (Inl e)
  with assms(1) show ?thesis by (simp add: processOutput_def)
next
  case (Inr m)
  from collect_keys [OF Inr] assms(2)
  have "\<forall>p \<in> fst ` set m. Uri_file h p \<noteq> Inr uri"
    by (auto simp: flagged_keys_iff)
  from set_all_other [OF this, of "diagnosticCollection ed"] processOutput_store [OF assms(1) Inr]
  show ?thesis by simp
qed

lemma processOutput_no_empty:
  assumes "no_empty_entry (diagnosticCollection ed)"
  shows "no_empty_entry (diagnosticCollection (snd (processOutput h ws cfg output ed)))"
proof (cases "files output")
  case NoFiles
  with assms show ?thesis by (simp add: processOutput_def)
next
  case (Files entries)
  show ?thesis
  proof (cases "collect ws cfg [] entries")
    case (Inl e)
    with Files assms show ?thesis by (simp add: processOutput_def)
  next
    case (Inr m)
    from collect_values [OF Inr] have v: "\<forall>(k, v) \<in> set m. v \<noteq> []" by simp
    have "snd (set_all h m (diagnosticCollection ed)) p \<noteq> Some []" for p
    proof
      assume "snd (set_all h m (diagnosticCollection ed)) p = Some []"
      from set_all_values [OF this] assms v show False
        by (auto simp: no_empty_entry_def)
    qed
    with processOutput_store [OF Files Inr] show ?thesis
      by (simp add: no_empty_entry_def)
  qed
qed

lemma handle_store:
  "diagnosticCollection (snd (handle h ws cfg output progress ed))
     = diagnosticCollection (snd (processOutput h ws cfg output (ed\<lparr>diagnosticCollection := Map.empty\<rparr>)))"
  by (simp add: handle_def report_progress_def Let_def case_prod_beta)

lemma handle_fst:
  "fst (handle h ws cfg output progress ed)
     = fst (processOutput h ws cfg output (ed\<lparr>diagnosticCollection := Map.empty\<rparr>))"
  by (simp add: handle_def Let_def case_prod_beta)

lemma handle_notifications:
  "notifications (snd (handle h ws cfg output progress ed))
     = notifications ed @ (if progress then [ProgressReport (Some (status_message output))] else [])"
  by (simp add: handle_def report_progress_def Let_def case_prod_beta processOutput_notifications)

section \<open>runAnalysis\<close>


lemma check_of_whole: "\<not> truthy filePath \<Longrightarrow> check_of h filePath ed = Inr False"
  by (simp add: check_of_def)


lemma check_of_single:
  "F \<noteq> [] \<Longrightarrow> Uri_file h F = Inr uri \<Longrightarrow>
   check_of h (Some F) ed = Inr (diagnosticCollection ed uri \<noteq> None)"
  by (simp add: check_of_def truthy_def)

lemma runAnalysis_aborted:
  "check_of h filePath ed = Inr c \<Longrightarrow>
   invoke h (prepareCommand ws cfg filePath) progress (meanwhile h ed) = Inl aborted \<Longrightarrow>
   runAnalysis h ws cfg progress filePath ed = (Resolved None, aborted)"
  by (simp add: runAnalysis_def)

lemma runAnalysis_single:
  assumes "F \<noteq> []"
    and "Uri_file h F = Inr uri"
    and "invoke h (prepareCommand ws cfg (Some F)) progress (meanwhile h ed) = Inr stdout"
    and "JSON_parse h stdout = Some parsed"
    and "files parsed = Files entries"
  shows "runAnalysis h ws cfg progress (Some F) ed =
           processOutput h ws cfg parsed
             (if entries = [] \<and> diagnosticCollection ed uri \<noteq> None
              then (meanwhile h ed)
                     \<lparr>diagnosticCollection := (diagnosticCollection (meanwhile h ed))(uri := None)\<rparr>
              else meanwhile h ed)"
  using assms check_of_single [OF assms(1,2), of ed]
  by (auto simp: runAnalysis_def truthy_def delete_file_def)

lemma runAnalysis_whole:
  assumes "\<not> truthy filePath"
    and "invoke h (prepareCommand ws cfg filePath) progress (meanwhile h ed) = Inr stdout"
    and "JSON_parse h stdout = Some parsed"
    and "files parsed = Files entries"
  shows "runAnalysis h ws cfg progress filePath ed = handle h ws cfg parsed progress (meanwhile h ed)"
  using assms check_of_whole [OF assms(1), of h ed]
  by (simp add: runAnalysis_def)

section \<open>The example host\<close>

lemma example_host_simps [simp]:
  "execa (example_host outcome stdout parsed) cmnd = outcome"
  "JSON_parse (example_host outcome stdout parsed) stdout = Some parsed"
  "Uri_file (example_host outcome stdout parsed) = example_Uri_file"
  "meanwhile (example_host outcome stdout parsed) ed = ed"
  by (simp_all add: example_host_def)

lemma example_uris [simp]:
  "example_Uri_file ''/home/user/proj/src/Foo.php'' = Inr foo_uri"
  "example_Uri_file ''/home/user/proj/src/Bar.php'' = Inr bar_uri"
  "foo_uri \<noteq> bar_uri"
  by (simp_all add: example_Uri_file_def foo_uri_def bar_uri_def)

lemma example_flagged [simp]:
  "flagged example_ws example_config
     [(''/app/src/Foo.php'', WithMessages (MessageArray [Some example_violation]))]
   = [''/home/user/proj/src/Foo.php'']"
  "flagged example_ws example_config [(''/app/src/Foo.php'', WithMessages (MessageArray []))] = []"
  by (simp_all add: flagged_def example_ws_def example_config_def replace_def)

section \<open>The diagnostic record of a violation\<close>

text \<open>
  C5: for every violation with line field \<open>L\<close>, the diagnostic record produced for it has the
  zero-based line \<open>max 0 (L - 1)\<close>, at both ends of its range; \<open>L = 0\<close> and \<open>L = 1\<close> both give
  line 0. A record is produced for every violation whose message is not empty (for an
  empty message the constructor of the record throws), and the records of a file are
  those of its messages, one for each, in order. (Line numbers are
  safe integers, on which the subtraction is exact.)
\<close>

theorem record_line_zero_based:
  "(diagnostic_of msg = Inr d \<longrightarrow>
      pos_line (range_start (diag_range d)) = max 0 (int_of (line msg) - 1)
    \<and> pos_line (range_end (diag_range d)) = max 0 (int_of (line msg) - 1))
   \<and> (diagnostic_of msg = Inr d \<and> (int_of (line msg) = 0 \<or> int_of (line msg) = 1) \<longrightarrow>
        pos_line (range_start (diag_range d)) = 0 \<and> pos_line (range_end (diag_range d)) = 0)
   \<and> (message msg \<noteq> [] \<longrightarrow> (\<exists>d'. diagnostic_of msg = Inr d'))
   \<and> (message msg = [] \<longrightarrow> diagnostic_of msg = Inl TypeError)
   \<and> (fileDiagnostics_of (WithMessages (MessageArray (map Some msgs))) = Inr ds \<longrightarrow>
        map Inr ds = map diagnostic_of msgs)
   \<and> ((\<forall>m \<in> set msgs. message m \<noteq> []) \<longrightarrow>
        (\<exists>ds'. fileDiagnostics_of (WithMessages (MessageArray (map Some msgs))) = Inr ds'))"
proof (intro conjI impI)
  assume "diagnostic_of msg = Inr d"
  then show "pos_line (range_start (diag_range d)) = max 0 (int_of (line msg) - 1)"
    and "pos_line (range_end (diag_range d)) = max 0 (int_of (line msg) - 1)"
    by (auto simp: diagnostic_of_def Let_def split: if_splits)
next
  assume "diagnostic_of msg = Inr d \<and> (int_of (line msg) = 0 \<or> int_of (line msg) = 1)"
  then show "pos_line (range_start (diag_range d)) = 0" and "pos_line (range_end (diag_range d)) = 0"
    by (auto simp: diagnostic_of_def Let_def split: if_splits)
next
  assume "message msg \<noteq> []"
  then show "\<exists>d'. diagnostic_of msg = Inr d'"
    by (simp add: diagnostic_of_def Let_def)
next
  assume "message msg = []"
  then show "diagnostic_of msg = Inl TypeError"
    by (simp add: diagnostic_of_def Let_def)
next
  assume "fileDiagnostics_of (WithMessages (MessageArray (map Some msgs))) = Inr ds"
  then have "push_messages [] (map Some msgs) = Inr ds" by simp
  from push_messages_records [OF this] show "map Inr ds = map diagnostic_of msgs" by simp
next
  assume "\<forall>m \<in> set msgs. message m \<noteq> []"
  from push_messages_total [OF this, of "[]"]
  show "\<exists>ds'. fileDiagnostics_of (WithMessages (MessageArray (map Some msgs))) = Inr ds'" by simp
qed

text \<open>
  Witness for C5: the violations at lines 0, 1 and 10 with the message of the example; their
  records are at lines 0, 0 and 9.
\<close>

theorem record_line_zero_based_witness:
  "message example_violation \<noteq> []
   \<and> (\<exists>d. diagnostic_of (example_violation\<lparr>line := SafeInteger 0\<rparr>) = Inr d
          \<and> pos_line (range_start (diag_range d)) = 0 \<and> pos_line (range_end (diag_range d)) = 0)
   \<and> (\<exists>d. diagnostic_of (example_violation\<lparr>line := SafeInteger 1\<rparr>) = Inr d
          \<and> pos_line (range_start (diag_range d)) = 0 \<and> pos_line (range_end (diag_range d)) = 0)
   \<and> (\<exists>d. diagnostic_of (example_violation\<lparr>line := SafeInteger 10\<rparr>) = Inr d
          \<and> pos_line (range_start (diag_range d)) = 9 \<and> pos_line (range_end (diag_range d)) = 9)"
proof -
  have m: "message (example_violation\<lparr>line := SafeInteger n\<rparr>) \<noteq> []" for n
    by (simp add: example_violation_def)
  have r: "\<exists>d. diagnostic_of (example_violation\<lparr>line := SafeInteger n\<rparr>) = Inr d
          \<and> pos_line (range_start (diag_range d)) = max 0 (n - 1)
          \<and> pos_line (range_end (diag_range d)) = max 0 (n - 1)"
    if "- 9007199254740991 \<le> n" "n \<le> 9007199254740991" for n
  proof -
    let ?msg = "example_violation\<lparr>line := SafeInteger n\<rparr>"
    from record_line_zero_based [of ?msg] m [of n]
    obtain d where d: "diagnostic_of ?msg = Inr d" by blast
    from record_line_zero_based [of ?msg d] d that show ?thesis by simp
  qed
  from r [of 0] r [of 1] r [of 10] m [of 10] show ?thesis
    by (simp add: example_violation_def)
qed

section \<open>The status message\<close>

text \<open>
  C9: in whole-project mode (\<^verbatim>\<open>handle\<close>, with a progress object) the message reported is
  \<^verbatim>\<open>done\<close> when \<^verbatim>\<open>totals.file_errors\<close> is 0 or absent (the whole \<^verbatim>\<open>totals\<close> may be absent too),
  and \<^verbatim>\<open>found N violations\<close> when it is \<open>N > 0\<close>, where \<open>N\<close> is written as its decimal
  numeral: digits only, no leading zero, denoting \<open>N\<close>; for \<open>N = 3\<close> the message is
  \<^verbatim>\<open>found 3 violations\<close>. The message is reported however \<^verbatim>\<open>processOutput\<close> settles. (Counters
  are safe integers, which the template literal prints in decimal.)
\<close>

theorem status_message_derivation:
  "notifications (snd (handle h ws cfg output True ed))
     = notifications ed @ [ProgressReport (Some (status_message output))]
   \<and> (totals output = None \<longrightarrow> status_message output = ''done'')
   \<and> (totals output = Some t \<and> (file_errors t = None \<or> (\<exists>z. file_errors t = Some z \<and> int_of z = 0)) \<longrightarrow>
        status_message output = ''done'')
   \<and> (totals output = Some t \<and> file_errors t = Some N \<and> int_of N > 0 \<longrightarrow>
        (\<exists>ds. status_message output = ''found '' @ ds @ '' violations''
              \<and> decimal_numeral ds \<and> int (decimal_value ds) = int_of N))
   \<and> (totals output = Some t \<and> file_errors t = Some N \<and> int_of N = 3 \<longrightarrow>
        status_message output = ''found 3 violations'')"
proof (intro conjI impI)
  show "notifications (snd (handle h ws cfg output True ed))
     = notifications ed @ [ProgressReport (Some (status_message output))]"
    by (simp add: handle_notifications)
next
  assume "totals output = None"
  then show "status_message output = ''done''"
    by (simp add: status_message_def violationCount_def)
next
  assume "totals output = Some t \<and> (file_errors t = None \<or> (\<exists>z. file_errors t = Some z \<and> int_of z = 0))"
  then show "status_message output = ''done''"
    by (auto simp: status_message_def violationCount_def)
next
  assume a: "totals output = Some t \<and> file_errors t = Some N \<and> int_of N > 0"
  then have v: "violationCount output = N" by (simp add: violationCount_def)
  from a have "0 < nat (int_of N)" by simp
  from decimal_numeral_digits [OF this] decimal_value_digits [of "nat (int_of N)"] a v
  have "status_message output = ''found '' @ digits (nat (int_of N)) @ '' violations''
      \<and> decimal_numeral (digits (nat (int_of N)))
      \<and> int (decimal_value (digits (nat (int_of N)))) = int_of N"
    by (simp add: status_message_def number_toString_def)
  then show "\<exists>ds. status_message output = ''found '' @ ds @ '' violations''
              \<and> decimal_numeral ds \<and> int (decimal_value ds) = int_of N"
    by blast
next
  assume a: "totals output = Some t \<and> file_errors t = Some N \<and> int_of N = 3"
  then have "violationCount output = N" by (simp add: violationCount_def)
  with a show "status_message output = ''found 3 violations''"
    by (simp add: status_message_def number_toString_def digits.simps [of 3])
qed

text \<open>
  Witness for C9: a report with \<^verbatim>\<open>file_errors = 3\<close> reports \<^verbatim>\<open>found 3 violations\<close>, one with
  \<^verbatim>\<open>file_errors = 12\<close> reports a numeral that denotes 12, one with \<^verbatim>\<open>file_errors = 0\<close> and
  one without \<^verbatim>\<open>totals\<close> report \<^verbatim>\<open>done\<close>.
\<close>

theorem status_message_derivation_witness:
  "notifications (snd (handle (example_host (Exited []) [] example_report) example_ws example_config
       (example_report\<lparr>totals := Some \<lparr>file_errors = Some (SafeInteger 3)\<rparr>\<rparr>) True empty_editor))
     = [ProgressReport (Some ''found 3 violations'')]
   \<and> (\<exists>ds. status_message (example_report\<lparr>totals := Some \<lparr>file_errors = Some (SafeInteger 12)\<rparr>\<rparr>)
             = ''found '' @ ds @ '' violations'' \<and> decimal_numeral ds \<and> decimal_value ds = 12)
   \<and> status_message empty_report = ''done''
   \<and> status_message malformed_report = ''done''"
proof -
  let ?h = "example_host (Exited []) [] example_report"
  let ?r3 = "example_report\<lparr>totals := Some \<lparr>file_errors = Some (SafeInteger 3)\<rparr>\<rparr>"
  let ?r12 = "example_report\<lparr>totals := Some \<lparr>file_errors = Some (SafeInteger 12)\<rparr>\<rparr>"
  from status_message_derivation [of ?h example_ws example_config ?r3 empty_editor
      "\<lparr>file_errors = Some (SafeInteger 3)\<rparr>" "SafeInteger 3"]
  have a: "notifications (snd (handle ?h example_ws example_config ?r3 True empty_editor))
     = [ProgressReport (Some ''found 3 violations'')]"
    by (simp add: empty_editor_def)
  from status_message_derivation [of ?h example_ws example_config ?r12 empty_editor
      "\<lparr>file_errors = Some (SafeInteger 12)\<rparr>" "SafeInteger 12"]
  have b: "\<exists>ds. status_message ?r12 = ''found '' @ ds @ '' violations''
             \<and> decimal_numeral ds \<and> decimal_value ds = 12"
    by simp
  from status_message_derivation [of ?h example_ws example_config empty_report empty_editor
      "\<lparr>file_errors = Some (SafeInteger 0)\<rparr>" "SafeInteger 0"]
  have c: "status_message empty_report = ''done''"
    by (simp add: empty_report_def)
  from status_message_derivation [of ?h example_ws example_config malformed_report empty_editor]
  have d: "status_message malformed_report = ''done''"
    by (simp add: malformed_report_def)
  from a b c d show ?thesis by blast
qed

section \<open>Replace mode\<close>

text \<open>
  C2: \<^verbatim>\<open>handle\<close> (replace mode) is \<^verbatim>\<open>processOutput\<close> run on the cleared store, whatever the
  store held and whatever the report is. Hence a report whose \<^verbatim>\<open>files\<close> is empty leaves the
  store empty, and a resource to which no file of the report is mapped has no entry
  afterwards.
\<close>

theorem replace_mode_clears_store:
  "handle h ws cfg output progress ed
     = (fst (processOutput h ws cfg output (ed\<lparr>diagnosticCollection := Map.empty\<rparr>)),
        report_progress progress (Some (status_message output))
          (snd (processOutput h ws cfg output (ed\<lparr>diagnosticCollection := Map.empty\<rparr>))))
   \<and> (files output = Files [] \<longrightarrow>
        diagnosticCollection (snd (handle h ws cfg output progress ed)) = Map.empty)
   \<and> (files output = Files entries
        \<and> (\<forall>(filePath, fileData) \<in> set entries.
              Uri_file h (replace filePath (dockerVolumePath cfg) ws) \<noteq> Inr uri) \<longrightarrow>
        diagnosticCollection (snd (handle h ws cfg output progress ed)) uri = None)"
proof (intro conjI impI)
  show "handle h ws cfg output progress ed
     = (fst (processOutput h ws cfg output (ed\<lparr>diagnosticCollection := Map.empty\<rparr>)),
        report_progress progress (Some (status_message output))
          (snd (processOutput h ws cfg output (ed\<lparr>diagnosticCollection := Map.empty\<rparr>))))"
    by (simp add: handle_def Let_def case_prod_beta)
next
  assume "files output = Files []"
  then show "diagnosticCollection (snd (handle h ws cfg output progress ed)) = Map.empty"
    by (simp add: handle_store processOutput_def)
next
  assume a: "files output = Files entries
        \<and> (\<forall>(filePath, fileData) \<in> set entries.
              Uri_file h (replace filePath (dockerVolumePath cfg) ws) \<noteq> Inr uri)"
  then have "uri \<notin> flagged_keys h ws cfg entries"
    by (auto simp: flagged_keys_iff flagged_def)
  with a show "diagnosticCollection (snd (handle h ws cfg output progress ed)) uri = None"
    by (simp add: handle_store processOutput_other)
qed

text \<open>
  Witness for C2: the editor shows a diagnostic for \<^verbatim>\<open>Bar.php\<close>. A report with no files empties
  the store; the example report, which lists \<^verbatim>\<open>Foo.php\<close> only, leaves no entry for
  \<^verbatim>\<open>Bar.php\<close>.
\<close>

theorem replace_mode_clears_store_witness:
  "diagnosticCollection (editor_with bar_uri) bar_uri = Some [old_diagnostic]
   \<and> files empty_report = Files []
   \<and> diagnosticCollection
        (snd (handle (example_host (Exited []) [] empty_report) example_ws example_config
               empty_report True (editor_with bar_uri))) = Map.empty
   \<and> example_Uri_file (replace ''/app/src/Foo.php'' (dockerVolumePath example_config) example_ws)
        = Inr foo_uri
   \<and> foo_uri \<noteq> bar_uri
   \<and> diagnosticCollection
        (snd (handle (example_host (Exited []) [] empty_report) example_ws example_config
               example_report True (editor_with bar_uri))) bar_uri = None"
proof -
  let ?h = "example_host (Exited []) [] empty_report"
  have k: "example_Uri_file (replace ''/app/src/Foo.php'' (dockerVolumePath example_config) example_ws)
        = Inr foo_uri"
    by (simp add: example_config_def example_ws_def replace_def)
  have e: "files empty_report = Files []" by (simp add: empty_report_def)
  have f: "files example_report
      = Files [(''/app/src/Foo.php'', WithMessages (MessageArray [Some example_violation]))]"
    by (simp add: example_report_def)
  from replace_mode_clears_store [of ?h example_ws example_config empty_report True
      "editor_with bar_uri" "[]" bar_uri] e
  have a: "diagnosticCollection
        (snd (handle ?h example_ws example_config empty_report True (editor_with bar_uri))) = Map.empty"
    by blast
  have prem: "files example_report
        = Files [(''/app/src/Foo.php'', WithMessages (MessageArray [Some example_violation]))]
      \<and> (\<forall>(filePath, fileData)
            \<in> set [(''/app/src/Foo.php'', WithMessages (MessageArray [Some example_violation]))].
            Uri_file ?h (replace filePath (dockerVolumePath example_config) example_ws) \<noteq> Inr bar_uri)"
    using f k by simp
  from replace_mode_clears_store [of ?h example_ws example_config example_report True
      "editor_with bar_uri"
      "[(''/app/src/Foo.php'', WithMessages (MessageArray [Some example_violation]))]" bar_uri,
      THEN conjunct2, THEN conjunct2, THEN mp, OF prem]
  have b: "diagnosticCollection
        (snd (handle ?h example_ws example_config example_report True (editor_with bar_uri))) bar_uri
      = None" .
  from a b k e show ?thesis by (simp add: editor_with_def)
qed

section \<open>The command line\<close>




section \<open>The end-to-end scenario\<close>

text \<open>
  Counterexample to C4: after the example report has been applied, the store does not
  hold for \<^verbatim>\<open>/home/user/proj/src/Foo.php\<close> the record the claim describes, whose range ends
  at column 16. The message \<^verbatim>\<open>Undefined method.\<close> has 17 characters.
\<close>

theorem end_column_is_not_16:
  "diagnosticCollection
     (snd (handle (example_host (Exited []) [] example_report) ''/home/user/proj'' example_config
            example_report False empty_editor))
     foo_uri
   \<noteq> Some [\<lparr> diag_range =
               \<lparr> range_start = \<lparr> pos_line = 9, pos_character = 0 \<rparr>,
                 range_end = \<lparr> pos_line = 9, pos_character = 16 \<rparr> \<rparr>,
             diag_message = ''Undefined method.'',
             diag_severity = Error,
             diag_source = ''Phpstan'',
             diag_code_value = Some ''method.notFound'',
             diag_code_target = ''https://phpstan.org/error-identifiers/method.notFound'' \<rparr>]
   \<and> example_Uri_file ''/home/user/proj/src/Foo.php'' = Inr foo_uri
   \<and> length ''Undefined method.'' = 17"
  by (simp add: handle_def processOutput_def report_progress_def Let_def example_report_def
      example_config_def example_violation_def empty_editor_def replace_def diagnostic_of_def
      PACKAGE_TITLE_def)

text \<open>
  C4, as amended: with \<^verbatim>\<open>dockerVolumePath = "/app"\<close> and the workspace root
  \<^verbatim>\<open>/home/user/proj\<close>, applying the example report yields exactly one store entry, keyed by
  the URI of \<^verbatim>\<open>/home/user/proj/src/Foo.php\<close>, with exactly one record: line 9, columns 0 to 17
  (the length of the message), severity error, and the reference
  \<^verbatim>\<open>https://phpstan.org/error-identifiers/method.notFound\<close>. This holds in replace mode
  (\<^verbatim>\<open>handle\<close>) whatever the store held, and in merge mode (\<^verbatim>\<open>processOutput\<close>) from an empty
  store.
\<close>

theorem end_to_end_mapping:
  assumes "Uri_file h ''/home/user/proj/src/Foo.php'' = Inr uri"
  shows "diagnosticCollection
     (snd (handle h ''/home/user/proj'' (cfg\<lparr>dockerVolumePath := ''/app''\<rparr>) example_report progress ed))
   = [uri \<mapsto>
        [\<lparr> diag_range =
             \<lparr> range_start = \<lparr> pos_line = 9, pos_character = 0 \<rparr>,
               range_end = \<lparr> pos_line = 9, pos_character = 17 \<rparr> \<rparr>,
           diag_message = ''Undefined method.'',
           diag_severity = Error,
           diag_source = ''Phpstan'',
           diag_code_value = Some ''method.notFound'',
           diag_code_target = ''https://phpstan.org/error-identifiers/method.notFound'' \<rparr>]]
   \<and> diagnosticCollection
       (snd (processOutput h ''/home/user/proj'' (cfg\<lparr>dockerVolumePath := ''/app''\<rparr>) example_report
              empty_editor))
     = diagnosticCollection
         (snd (handle h ''/home/user/proj'' (cfg\<lparr>dockerVolumePath := ''/app''\<rparr>) example_report
                progress ed))
   \<and> fst (handle h ''/home/user/proj'' (cfg\<lparr>dockerVolumePath := ''/app''\<rparr>) example_report progress ed)
     = Resolved (Some True)"
  using assms
  by (simp add: handle_store handle_fst processOutput_def example_report_def
      example_violation_def empty_editor_def replace_def diagnostic_of_def PACKAGE_TITLE_def)

text \<open>
  Witness for C4: in an editor whose \<^verbatim>\<open>Uri.file\<close> is the example's, the key is
  \<^verbatim>\<open>file:///home/user/proj/src/Foo.php\<close>.
\<close>

theorem end_to_end_mapping_witness:
  "Uri_file (example_host (Exited []) [] example_report) ''/home/user/proj/src/Foo.php''
     = Inr ''file:///home/user/proj/src/Foo.php''
   \<and> diagnosticCollection
       (snd (handle (example_host (Exited []) [] example_report) ''/home/user/proj''
              example_config example_report True (editor_with bar_uri)))
     = [''file:///home/user/proj/src/Foo.php'' \<mapsto>
        [\<lparr> diag_range =
             \<lparr> range_start = \<lparr> pos_line = 9, pos_character = 0 \<rparr>,
               range_end = \<lparr> pos_line = 9, pos_character = 17 \<rparr> \<rparr>,
           diag_message = ''Undefined method.'',
           diag_severity = Error,
           diag_source = ''Phpstan'',
           diag_code_value = Some ''method.notFound'',
           diag_code_target = ''https://phpstan.org/error-identifiers/method.notFound'' \<rparr>]]"
proof -
  let ?h = "example_host (Exited []) [] example_report"
  have u: "Uri_file ?h ''/home/user/proj/src/Foo.php'' = Inr ''file:///home/user/proj/src/Foo.php''"
    by (simp add: foo_uri_def)
  have c: "example_config\<lparr>dockerVolumePath := ''/app''\<rparr> = example_config"
    by (simp add: example_config_def)
  from end_to_end_mapping [OF u, of example_config True "editor_with bar_uri"] u c
  show ?thesis by simp
qed

section \<open>Store keys\<close>

text \<open>
  C10 at a workspace root that contains \<^verbatim>\<open>$$\<close>: with an empty \<^verbatim>\<open>dockerVolumePath\<close> the path
  under which the reported path \<^verbatim>\<open>/app/src/Foo.php\<close> is stored is not the workspace root
  followed by the reported path, because \<^verbatim>\<open>String.prototype.replace\<close> reads \<^verbatim>\<open>$$\<close> in its
  replacement as one dollar sign.
\<close>

theorem dollar_in_workspace_root:
  "replace ''/app/src/Foo.php'' [] ''/home/user/a$$b'' = ''/home/user/a$b/app/src/Foo.php''
   \<and> replace ''/app/src/Foo.php'' [] ''/home/user/a$$b'' \<noteq> ''/home/user/a$$b'' @ ''/app/src/Foo.php''
   \<and> collect ''/home/user/a$$b'' (example_config\<lparr>dockerVolumePath := []\<rparr>) []
        [(''/app/src/Foo.php'', WithMessages (MessageArray [Some example_violation]))]
       = Inr [(''/home/user/a$b/app/src/Foo.php'',
               [\<lparr> diag_range =
                    \<lparr> range_start = \<lparr> pos_line = 9, pos_character = 0 \<rparr>,
                      range_end = \<lparr> pos_line = 9, pos_character = 17 \<rparr> \<rparr>,
                  diag_message = ''Undefined method.'',
                  diag_severity = Error,
                  diag_source = ''Phpstan'',
                  diag_code_value = Some ''method.notFound'',
                  diag_code_target = ''https://phpstan.org/error-identifiers/method.notFound'' \<rparr>])]
   \<and> dom (diagnosticCollection
         (snd (processOutput (example_host (Exited []) [] example_report) ''/home/user/a$$b''
                (example_config\<lparr>dockerVolumePath := []\<rparr>) example_report empty_editor)))
       = {''file:///home/user/a$b/app/src/Foo.php''}"
  by (simp add: processOutput_def example_report_def example_config_def empty_editor_def
      replace_def example_Uri_file_def example_violation_def diagnostic_of_def PACKAGE_TITLE_def)

text \<open>
  For a workspace root without a dollar sign the replacement is the root itself: with an
  empty \<^verbatim>\<open>dockerVolumePath\<close> the root is put before the reported path, and the first
  occurrence of \<^verbatim>\<open>dockerVolumePath\<close> is rewritten wherever it starts, also in the middle of
  the path.
\<close>

theorem store_key_plain_root:
  assumes "CHR ''$'' \<notin> set ws"
  shows "replace p [] ws = ws @ p
       \<and> ((\<forall>j<length a. \<not> startsWith (drop j (a @ dvp @ b)) dvp) \<longrightarrow>
            replace (a @ dvp @ b) dvp ws = a @ ws @ b)
       \<and> (indexOf p dvp = None \<longrightarrow> replace p dvp ws = p)"
  using assms by (simp add: replace_def indexOf_Nil indexOf_first getSubstitution_plain)

text \<open>
  Witness: the root \<^verbatim>\<open>/home/user/proj\<close> and the path \<^verbatim>\<open>/x/app/src/Foo.php\<close>, in which \<^verbatim>\<open>/app\<close>
  starts at position 2.
\<close>

theorem store_key_plain_root_witness:
  "CHR ''$'' \<notin> set ''/home/user/proj''
   \<and> replace ''/app/src/Foo.php'' [] ''/home/user/proj'' = ''/home/user/proj/app/src/Foo.php''
   \<and> replace ''/x/app/src/Foo.php'' ''/app'' ''/home/user/proj'' = ''/x/home/user/proj/src/Foo.php''
   \<and> replace ''/src/Foo.php'' ''/app'' ''/home/user/proj'' = ''/src/Foo.php''"
proof -
  have d: "CHR ''$'' \<notin> set ''/home/user/proj''" by simp
  have f: "\<forall>j<length ''/x''. \<not> startsWith (drop j (''/x'' @ ''/app'' @ ''/src/Foo.php'')) ''/app''"
    by (simp add: less_Suc_eq)
  have n: "indexOf ''/src/Foo.php'' ''/app'' = None" by simp
  from store_key_plain_root [OF d, of "''/app/src/Foo.php''" "''/x''" "''/app''" "''/src/Foo.php''"]
    store_key_plain_root [OF d, of "''/src/Foo.php''" "[]" "''/app''" "[]"] d f n
  show ?thesis by simp
qed

section \<open>Single-file bookkeeping\<close>

text \<open>
  Counterexample to C3: the editor shows a diagnostic for \<^verbatim>\<open>Foo.php\<close>; the file is saved and
  the single-file pass prints a report that lists the file with an empty \<^verbatim>\<open>messages\<close>
  array. The report has zero files with findings and the store had an entry for the
  file, but the entry is not deleted: line 98 tests whether \<^verbatim>\<open>files\<close> is empty, not whether
  a file has findings.
\<close>

theorem entry_stays_when_no_file_has_findings:
  "files clean_file_report = Files [(''/app/src/Foo.php'', WithMessages (MessageArray []))]
   \<and> filter (\<lambda>(filePath, fileData). has_violation fileData)
        [(''/app/src/Foo.php'', WithMessages (MessageArray []))] = []
   \<and> Uri_file (example_host (Exited ''out'') ''out'' clean_file_report) ''/home/user/proj/src/Foo.php''
       = Inr foo_uri
   \<and> diagnosticCollection (editor_with foo_uri) foo_uri = Some [old_diagnostic]
   \<and> fst (runAnalysis (example_host (Exited ''out'') ''out'' clean_file_report) example_ws
            example_config False (Some ''/home/user/proj/src/Foo.php'') (editor_with foo_uri))
       = Resolved (Some True)
   \<and> diagnosticCollection
        (snd (runAnalysis (example_host (Exited ''out'') ''out'' clean_file_report) example_ws
               example_config False (Some ''/home/user/proj/src/Foo.php'') (editor_with foo_uri)))
        foo_uri
       = Some [old_diagnostic]"
  by (simp add: runAnalysis_def check_of_def invoke_def truthy_def clean_file_report_def
      processOutput_def editor_with_def)

text \<open>
  C3, as amended: a single-file run on \<open>F\<close> whose subprocess output parses to a report.
  Whether the store has an entry for \<open>F\<close> is read when the pass starts, before the
  subprocess is invoked, from the store as it is then (\<open>ed\<close>), not from the store as it is
  when the subprocess has ended (\<open>meanwhile h ed\<close>). If the report's \<^verbatim>\<open>files\<close> is empty and the
  store had an entry for \<open>F\<close> when the pass started, the pass resolves with that entry
  deleted and nothing else changed; if the store had none then, nothing is deleted, also
  when an entry has appeared in the meantime. A report whose \<^verbatim>\<open>files\<close> is not empty deletes
  nothing, also when none of its files has a finding: the entry of \<open>F\<close> is what it was
  unless the report has a finding for a file with the URI of \<open>F\<close>. In particular a report
  that lists one file only, with another URI, leaves the entry of \<open>F\<close> unchanged.
\<close>

theorem single_file_bookkeeping:
  assumes "F \<noteq> []"
    and "Uri_file h F = Inr uri"
    and "invoke h (prepareCommand ws cfg (Some F)) progress (meanwhile h ed) = Inr stdout"
    and "JSON_parse h stdout = Some parsed"
  shows "(files parsed = Files [] \<and> diagnosticCollection ed uri \<noteq> None \<longrightarrow>
            runAnalysis h ws cfg progress (Some F) ed
              = (Resolved (Some False),
                 (meanwhile h ed)
                   \<lparr>diagnosticCollection := (diagnosticCollection (meanwhile h ed))(uri := None)\<rparr>))
       \<and> (files parsed = Files [] \<and> diagnosticCollection ed uri = None \<longrightarrow>
            runAnalysis h ws cfg progress (Some F) ed = (Resolved (Some False), meanwhile h ed))
       \<and> (files parsed = Files entries \<and> entries \<noteq> [] \<and> uri \<notin> flagged_keys h ws cfg entries \<longrightarrow>
            diagnosticCollection (snd (runAnalysis h ws cfg progress (Some F) ed)) uri
              = diagnosticCollection (meanwhile h ed) uri)
       \<and> (files parsed = Files [(G, fileData)]
           \<and> Uri_file h (replace G (dockerVolumePath cfg) ws) \<noteq> Inr uri \<longrightarrow>
            diagnosticCollection (snd (runAnalysis h ws cfg progress (Some F) ed)) uri
              = diagnosticCollection (meanwhile h ed) uri)"
proof (intro conjI impI)
  assume a: "files parsed = Files [] \<and> diagnosticCollection ed uri \<noteq> None"
  then have "files parsed = Files []" by simp
  from runAnalysis_single [OF assms this] a
  show "runAnalysis h ws cfg progress (Some F) ed
              = (Resolved (Some False),
                 (meanwhile h ed)
                   \<lparr>diagnosticCollection := (diagnosticCollection (meanwhile h ed))(uri := None)\<rparr>)"
    by (simp add: processOutput_def)
next
  assume a: "files parsed = Files [] \<and> diagnosticCollection ed uri = None"
  then have "files parsed = Files []" by simp
  from runAnalysis_single [OF assms this] a
  show "runAnalysis h ws cfg progress (Some F) ed = (Resolved (Some False), meanwhile h ed)"
    by (simp add: processOutput_def)
next
  assume a: "files parsed = Files entries \<and> entries \<noteq> [] \<and> uri \<notin> flagged_keys h ws cfg entries"
  then have f: "files parsed = Files entries" and n: "uri \<notin> flagged_keys h ws cfg entries"
    by simp_all
  from processOutput_other [OF f n] runAnalysis_single [OF assms f] a
  show "diagnosticCollection (snd (runAnalysis h ws cfg progress (Some F) ed)) uri
              = diagnosticCollection (meanwhile h ed) uri"
    by simp
next
  assume a: "files parsed = Files [(G, fileData)]
           \<and> Uri_file h (replace G (dockerVolumePath cfg) ws) \<noteq> Inr uri"
  then have f: "files parsed = Files [(G, fileData)]" by simp
  from a have "uri \<notin> flagged_keys h ws cfg [(G, fileData)]"
    by (auto simp: flagged_keys_iff flagged_def)
  from processOutput_other [OF f this] runAnalysis_single [OF assms f]
  show "diagnosticCollection (snd (runAnalysis h ws cfg progress (Some F) ed)) uri
              = diagnosticCollection (meanwhile h ed) uri"
    by simp
qed

text \<open>
  Witness for C3: four single-file runs. A run on \<^verbatim>\<open>Foo.php\<close>, for which the editor shows a
  diagnostic, with a report without files: the entry is gone. The same run from an
  editor that shows nothing, while another pass publishes a diagnostic for \<^verbatim>\<open>Foo.php\<close>
  before the subprocess ends: that entry stays, because the store was read before. A run
  on \<^verbatim>\<open>Foo.php\<close> with the report that lists it without messages: the entry stays. A run on
  \<^verbatim>\<open>Bar.php\<close> with the example report, which lists \<^verbatim>\<open>Foo.php\<close> only: the entry of \<^verbatim>\<open>Bar.php\<close>
  stays.
\<close>

theorem single_file_bookkeeping_witness:
  "runAnalysis (example_host (Exited ''out'') ''out'' empty_report) example_ws example_config False
        (Some ''/home/user/proj/src/Foo.php'') (editor_with foo_uri)
      = (Resolved (Some False), empty_editor)
   \<and> runAnalysis ((example_host (Exited ''out'') ''out'' empty_report)\<lparr>meanwhile := other_pass foo_uri\<rparr>)
        example_ws example_config False (Some ''/home/user/proj/src/Foo.php'') empty_editor
      = (Resolved (Some False), editor_with foo_uri)
   \<and> diagnosticCollection
        (snd (runAnalysis (example_host (Exited ''out'') ''out'' clean_file_report) example_ws
               example_config False (Some ''/home/user/proj/src/Foo.php'') (editor_with foo_uri)))
        foo_uri
      = Some [old_diagnostic]
   \<and> diagnosticCollection
        (snd (runAnalysis (example_host (Exited ''out'') ''out'' example_report) example_ws
               example_config False (Some ''/home/user/proj/src/Bar.php'') (editor_with bar_uri)))
        bar_uri
      = Some [old_diagnostic]"
proof -
  let ?foo = "''/home/user/proj/src/Foo.php''" and ?bar = "''/home/user/proj/src/Bar.php''"
  let ?h1 = "example_host (Exited ''out'') ''out'' empty_report"
  let ?h2 = "(example_host (Exited ''out'') ''out'' empty_report)\<lparr>meanwhile := other_pass foo_uri\<rparr>"
  let ?h3 = "example_host (Exited ''out'') ''out'' clean_file_report"
  let ?h4 = "example_host (Exited ''out'') ''out'' example_report"
  have n: "?foo \<noteq> []" "?bar \<noteq> []" by simp_all
  have u: "Uri_file ?h1 ?foo = Inr foo_uri" "Uri_file ?h2 ?foo = Inr foo_uri"
    "Uri_file ?h3 ?foo = Inr foo_uri" "Uri_file ?h4 ?bar = Inr bar_uri"
    by simp_all
  have i: "invoke ?h1 (prepareCommand example_ws example_config (Some ?foo)) False
             (meanwhile ?h1 (editor_with foo_uri)) = Inr ''out''"
    "invoke ?h2 (prepareCommand example_ws example_config (Some ?foo)) False
             (meanwhile ?h2 empty_editor) = Inr ''out''"
    "invoke ?h3 (prepareCommand example_ws example_config (Some ?foo)) False
             (meanwhile ?h3 (editor_with foo_uri)) = Inr ''out''"
    "invoke ?h4 (prepareCommand example_ws example_config (Some ?bar)) False
             (meanwhile ?h4 (editor_with bar_uri)) = Inr ''out''"
    by (simp_all add: invoke_def)
  have p: "JSON_parse ?h1 ''out'' = Some empty_report" "JSON_parse ?h2 ''out'' = Some empty_report"
    "JSON_parse ?h3 ''out'' = Some clean_file_report" "JSON_parse ?h4 ''out'' = Some example_report"
    by simp_all
  have f: "files empty_report = Files []"
    "files clean_file_report = Files [(''/app/src/Foo.php'', WithMessages (MessageArray []))]"
    "files example_report
       = Files [(''/app/src/Foo.php'', WithMessages (MessageArray [Some example_violation]))]"
    by (simp_all add: empty_report_def clean_file_report_def example_report_def)
  have k1: "foo_uri \<notin> flagged_keys ?h3 example_ws example_config
              [(''/app/src/Foo.php'', WithMessages (MessageArray []))]"
    by (simp add: flagged_keys_def)
  have k2: "Uri_file ?h4 (replace ''/app/src/Foo.php'' (dockerVolumePath example_config) example_ws)
       \<noteq> Inr bar_uri"
    by (simp add: example_config_def example_ws_def replace_def)
  have a: "runAnalysis ?h1 example_ws example_config False (Some ?foo) (editor_with foo_uri)
      = (Resolved (Some False), empty_editor)"
    using single_file_bookkeeping [OF n(1) u(1) i(1) p(1), of "[]"] f(1)
    by (simp add: editor_with_def empty_editor_def)
  have b: "runAnalysis ?h2 example_ws example_config False (Some ?foo) empty_editor
      = (Resolved (Some False), editor_with foo_uri)"
    using single_file_bookkeeping [OF n(1) u(2) i(2) p(2), of "[]"] f(1)
    by (simp add: editor_with_def empty_editor_def other_pass_def)
  have c: "diagnosticCollection
        (snd (runAnalysis ?h3 example_ws example_config False (Some ?foo) (editor_with foo_uri)))
        foo_uri = Some [old_diagnostic]"
    using single_file_bookkeeping [OF n(1) u(3) i(3) p(3),
        of "[(''/app/src/Foo.php'', WithMessages (MessageArray []))]"] f(2) k1
    by (simp add: editor_with_def)
  have d: "diagnosticCollection
        (snd (runAnalysis ?h4 example_ws example_config False (Some ?bar) (editor_with bar_uri)))
        bar_uri = Some [old_diagnostic]"
    using single_file_bookkeeping [OF n(2) u(4) i(4) p(4), of "[]" "''/app/src/Foo.php''"
        "WithMessages (MessageArray [Some example_violation])"] f(3) k2
    by (simp add: editor_with_def)
  from a b c d show ?thesis by blast
qed

section \<open>Failures of the subprocess\<close>

text \<open>
  C7: an invocation has taken place, so line 56 did not throw. When the subprocess fails
  with a standard error text and no standard output, the pass is aborted: the promise
  resolves with \<^verbatim>\<open>undefined\<close>, the pass leaves the store as it is, and the error text is
  shown to the user after the product's title (following the progress report, if there
  is a progress object). When the subprocess fails with a standard output, that output
  is the text given to \<^verbatim>\<open>JSON.parse\<close> and the pass goes on with the parsed report, exactly
  as when the subprocess succeeds with that output: a \<^verbatim>\<open>SyntaxError\<close> when it does not
  parse, a \<^verbatim>\<open>TypeError\<close> when the report has no \<^verbatim>\<open>files\<close>, and otherwise the bookkeeping
  of line 98 followed by \<^verbatim>\<open>processOutput\<close> (single-file mode) or \<^verbatim>\<open>handle\<close> (whole-project
  mode) on the parsed report.
\<close>

theorem error_classification:
  assumes "check_of h filePath ed = Inr check"
  shows "(execa h (prepareCommand ws cfg filePath) = ExecaError stdout (Some err)
      \<and> err \<noteq> [] \<and> \<not> truthy stdout \<longrightarrow>
        fst (runAnalysis h ws cfg progress filePath ed) = Resolved None
      \<and> diagnosticCollection (snd (runAnalysis h ws cfg progress filePath ed))
          = diagnosticCollection (meanwhile h ed)
      \<and> notifications (snd (runAnalysis h ws cfg progress filePath ed))
          = notifications (meanwhile h ed) @ (if progress then [ProgressReport None] else [])
              @ [ShowErrorMessage (''Phpstan: '' @ err)])
   \<and> ((execa h (prepareCommand ws cfg filePath) = ExecaError (Some out) stderr \<and> out \<noteq> [])
       \<or> execa h (prepareCommand ws cfg filePath) = Exited out \<longrightarrow>
        (JSON_parse h out = None \<longrightarrow>
           runAnalysis h ws cfg progress filePath ed = (Rejected SyntaxError, meanwhile h ed))
      \<and> (\<forall>parsed. JSON_parse h out = Some parsed \<and> files parsed = NoFiles \<longrightarrow>
           runAnalysis h ws cfg progress filePath ed = (Rejected TypeError, meanwhile h ed))
      \<and> (\<forall>parsed entries.
            JSON_parse h out = Some parsed \<and> files parsed = Files entries
            \<and> \<not> (entries = [] \<and> check) \<longrightarrow>
           runAnalysis h ws cfg progress filePath ed
             = (if truthy filePath then processOutput h ws cfg parsed (meanwhile h ed)
                else handle h ws cfg parsed progress (meanwhile h ed)))
      \<and> (\<forall>parsed uri.
            JSON_parse h out = Some parsed \<and> files parsed = Files [] \<and> check
            \<and> Uri_file h (text_of filePath) = Inr uri \<longrightarrow>
           runAnalysis h ws cfg progress filePath ed
             = (Resolved (Some False),
                (meanwhile h ed)
                  \<lparr>diagnosticCollection := (diagnosticCollection (meanwhile h ed))(uri := None)\<rparr>)))"
  (is "(?P1 \<longrightarrow> ?Q1) \<and> (?P2 \<longrightarrow> ?Q2)")
proof (rule conjI)
  show "?P1 \<longrightarrow> ?Q1"
  proof (rule impI)
    assume a: ?P1
    then have "invoke h (prepareCommand ws cfg filePath) progress (meanwhile h ed)
        = Inl (showErrorMessage (PACKAGE_TITLE @ '': '' @ err)
                (report_progress progress None (meanwhile h ed)))"
      by (simp add: invoke_def truthy_def)
    from runAnalysis_aborted [OF assms this]
    show ?Q1
      by (simp add: showErrorMessage_def report_progress_def PACKAGE_TITLE_def)
  qed
next
  show "?P2 \<longrightarrow> ?Q2"
  proof (rule impI)
    assume a: ?P2
    then have i: "invoke h (prepareCommand ws cfg filePath) progress (meanwhile h ed) = Inr out"
      by (auto simp: invoke_def truthy_def)
    have s1: "JSON_parse h out = None \<longrightarrow>
             runAnalysis h ws cfg progress filePath ed = (Rejected SyntaxError, meanwhile h ed)"
      using assms i by (simp add: runAnalysis_def)
    have s2: "\<forall>parsed. JSON_parse h out = Some parsed \<and> files parsed = NoFiles \<longrightarrow>
             runAnalysis h ws cfg progress filePath ed = (Rejected TypeError, meanwhile h ed)"
      using assms i by (simp add: runAnalysis_def)
    have s3: "\<forall>parsed entries.
              JSON_parse h out = Some parsed \<and> files parsed = Files entries
              \<and> \<not> (entries = [] \<and> check) \<longrightarrow>
             runAnalysis h ws cfg progress filePath ed
               = (if truthy filePath then processOutput h ws cfg parsed (meanwhile h ed)
                  else handle h ws cfg parsed progress (meanwhile h ed))"
      using assms i by (auto simp: runAnalysis_def)
    have s4: "\<forall>parsed uri.
              JSON_parse h out = Some parsed \<and> files parsed = Files [] \<and> check
              \<and> Uri_file h (text_of filePath) = Inr uri \<longrightarrow>
             runAnalysis h ws cfg progress filePath ed
               = (Resolved (Some False),
                  (meanwhile h ed)
                    \<lparr>diagnosticCollection := (diagnosticCollection (meanwhile h ed))(uri := None)\<rparr>)"
    proof (intro allI impI)
      fix parsed uri
      assume b: "JSON_parse h out = Some parsed \<and> files parsed = Files [] \<and> check
              \<and> Uri_file h (text_of filePath) = Inr uri"
      with assms have "truthy filePath"
        by (auto simp: check_of_def split: if_splits)
      with assms i b show "runAnalysis h ws cfg progress filePath ed
               = (Resolved (Some False),
                  (meanwhile h ed)
                    \<lparr>diagnosticCollection := (diagnosticCollection (meanwhile h ed))(uri := None)\<rparr>)"
        by (simp add: runAnalysis_def delete_file_def processOutput_def)
    qed
    from s1 s2 s3 s4 show ?Q2 by blast
  qed
qed

text \<open>
  Witness for C7: a whole-project run whose subprocess fails with the standard error
  \<^verbatim>\<open>No config\<close> only, and one whose subprocess fails after printing the example report:
  the report is applied in replace mode, as after a success.
\<close>

theorem error_classification_witness:
  "runAnalysis (example_host (ExecaError None (Some ''No config'')) ''out'' example_report)
       example_ws example_config True None (editor_with bar_uri)
     = (Resolved None,
        (editor_with bar_uri)
          \<lparr>notifications := [ProgressReport None, ShowErrorMessage ''Phpstan: No config'']\<rparr>)
   \<and> runAnalysis (example_host (ExecaError (Some ''out'') (Some ''Warning'')) ''out'' example_report)
       example_ws example_config True None (editor_with bar_uri)
     = handle (example_host (ExecaError (Some ''out'') (Some ''Warning'')) ''out'' example_report)
         example_ws example_config example_report True (editor_with bar_uri)
   \<and> runAnalysis (example_host (Exited ''out'') ''out'' example_report)
       example_ws example_config True None (editor_with bar_uri)
     = handle (example_host (Exited ''out'') ''out'' example_report)
         example_ws example_config example_report True (editor_with bar_uri)"
proof -
  let ?ed = "editor_with bar_uri"
  let ?h1 = "example_host (ExecaError None (Some ''No config'')) ''out'' example_report"
  let ?h2 = "example_host (ExecaError (Some ''out'') (Some ''Warning'')) ''out'' example_report"
  let ?h3 = "example_host (Exited ''out'') ''out'' example_report"
  have c: "check_of ?h1 None ?ed = Inr False" "check_of ?h2 None ?ed = Inr False"
    "check_of ?h3 None ?ed = Inr False"
    by (simp_all add: check_of_def truthy_def)
  have f: "files example_report
       = Files [(''/app/src/Foo.php'', WithMessages (MessageArray [Some example_violation]))]"
    by (simp add: example_report_def)
  have a: "fst (runAnalysis ?h1 example_ws example_config True None ?ed) = Resolved None
      \<and> diagnosticCollection (snd (runAnalysis ?h1 example_ws example_config True None ?ed))
          = diagnosticCollection ?ed
      \<and> notifications (snd (runAnalysis ?h1 example_ws example_config True None ?ed))
          = [ProgressReport None, ShowErrorMessage ''Phpstan: No config'']"
    using error_classification [OF c(1), of example_ws example_config None "''No config''" True]
    by (simp add: truthy_def editor_with_def)
  have a': "runAnalysis ?h1 example_ws example_config True None ?ed
     = (Resolved None, ?ed\<lparr>notifications := [ProgressReport None, ShowErrorMessage ''Phpstan: No config'']\<rparr>)"
    using a
    by (cases "runAnalysis ?h1 example_ws example_config True None ?ed") (simp add: editor_with_def)
  have b2: "runAnalysis ?h2 example_ws example_config True None ?ed
      = handle ?h2 example_ws example_config example_report True ?ed"
    using error_classification [OF c(2), of example_ws example_config _ _ True "''out''"
        "Some ''Warning''"] f
    by (simp add: truthy_def)
  have b3: "runAnalysis ?h3 example_ws example_config True None ?ed
      = handle ?h3 example_ws example_config example_report True ?ed"
    using error_classification [OF c(3), of example_ws example_config _ _ True "''out''"] f
    by (simp add: truthy_def)
  from a' b2 b3 show ?thesis by blast
qed

section \<open>Failed passes\<close>




section \<open>The store after a pass\<close>

text \<open>
  Counterexample to C1: the editor shows a diagnostic for \<^verbatim>\<open>Foo.php\<close>; the file is saved and
  the single-file pass prints a report that lists the file with an empty \<^verbatim>\<open>messages\<close>
  array. The pass completes (\<^verbatim>\<open>processOutput\<close> resolves with \<^verbatim>\<open>true\<close>), the report has no
  violation for the file, and the file is still in the store: \<^verbatim>\<open>files\<close> is not empty, so
  line 99 deletes nothing, and \<^verbatim>\<open>processOutput\<close> writes nothing for a file without
  diagnostics.
\<close>

theorem stale_entry_after_single_file_pass:
  "runAnalysis (example_host (Exited ''out'') ''out'' clean_file_report) example_ws example_config
       False (Some ''/home/user/proj/src/Foo.php'') (editor_with foo_uri)
     = (Resolved (Some True), editor_with foo_uri)
   \<and> foo_uri \<in> dom (diagnosticCollection (editor_with foo_uri))
   \<and> files clean_file_report = Files [(''/app/src/Foo.php'', WithMessages (MessageArray []))]
   \<and> replace ''/app/src/Foo.php'' (dockerVolumePath example_config) example_ws
       = ''/home/user/proj/src/Foo.php''
   \<and> example_Uri_file ''/home/user/proj/src/Foo.php'' = Inr foo_uri
   \<and> foo_uri
       \<notin> flagged_keys (example_host (Exited ''out'') ''out'' clean_file_report) example_ws
           example_config [(''/app/src/Foo.php'', WithMessages (MessageArray []))]"
proof -
  have "runAnalysis (example_host (Exited ''out'') ''out'' clean_file_report) example_ws example_config
       False (Some ''/home/user/proj/src/Foo.php'') (editor_with foo_uri)
     = (Resolved (Some True), editor_with foo_uri)"
    by (simp add: runAnalysis_def check_of_def invoke_def truthy_def clean_file_report_def
        processOutput_def editor_with_def)
  moreover have "replace ''/app/src/Foo.php'' (dockerVolumePath example_config) example_ws
       = ''/home/user/proj/src/Foo.php''"
    by (simp add: example_config_def example_ws_def replace_def)
  ultimately show ?thesis
    by (simp add: clean_file_report_def editor_with_def flagged_keys_def)
qed

text \<open>
  C1, as amended: a pass that completes on a parsed report. Store keys are the URIs that
  \<^verbatim>\<open>Uri.file\<close> gives for the mapped paths. After a whole-project pass a URI is in the store
  if and only if the report has at least one violation for a file mapped to that URI.
  After a single-file pass on \<open>F\<close> the store holds the URIs it held when the subprocess
  ended, without that of \<open>F\<close> when the report's \<^verbatim>\<open>files\<close> is empty and the store had an
  entry for \<open>F\<close> when the pass started, and the URIs for which the report has at least one
  violation; an earlier entry of a file that the report lists without violations stays.
  No pass puts a file in the store with an empty list of diagnostics.
\<close>

theorem store_after_completed_pass:
  assumes "invoke h (prepareCommand ws cfg filePath) progress (meanwhile h ed) = Inr stdout"
    and "JSON_parse h stdout = Some parsed"
    and "files parsed = Files entries"
    and "fst (runAnalysis h ws cfg progress filePath ed) = Resolved (Some b)"
  shows "(\<not> truthy filePath \<longrightarrow>
            dom (diagnosticCollection (snd (runAnalysis h ws cfg progress filePath ed)))
              = flagged_keys h ws cfg entries)
       \<and> (filePath = Some F \<and> F \<noteq> [] \<and> Uri_file h F = Inr uri \<longrightarrow>
            dom (diagnosticCollection (snd (runAnalysis h ws cfg progress filePath ed)))
              = (dom (diagnosticCollection (meanwhile h ed))
                   - (if entries = [] \<and> uri \<in> dom (diagnosticCollection ed) then {uri} else {}))
                  \<union> flagged_keys h ws cfg entries)
       \<and> (\<not> truthy filePath \<or> no_empty_entry (diagnosticCollection (meanwhile h ed)) \<longrightarrow>
            no_empty_entry (diagnosticCollection (snd (runAnalysis h ws cfg progress filePath ed))))"
proof -
  let ?r = "runAnalysis h ws cfg progress filePath ed"
  let ?mw = "meanwhile h ed"
  let ?cleared = "?mw\<lparr>diagnosticCollection := Map.empty\<rparr>"
  have whole_dom: "dom (diagnosticCollection (snd ?r)) = flagged_keys h ws cfg entries"
    and whole_values: "no_empty_entry (diagnosticCollection (snd ?r))"
    if t: "\<not> truthy filePath"
  proof -
    have r: "?r = handle h ws cfg parsed progress ?mw"
      by (rule runAnalysis_whole [OF t assms(1,2,3)])
    with assms(4) have "fst (processOutput h ws cfg parsed ?cleared) = Resolved (Some b)"
      by (simp add: handle_fst)
    from processOutput_dom [OF assms(3) this] r
    show "dom (diagnosticCollection (snd ?r)) = flagged_keys h ws cfg entries"
      by (simp add: handle_store)
    have "no_empty_entry (diagnosticCollection ?cleared)"
      by (simp add: no_empty_entry_def)
    from processOutput_no_empty [OF this] r
    show "no_empty_entry (diagnosticCollection (snd ?r))"
      by (simp add: handle_store)
  qed
  have single_dom: "dom (diagnosticCollection (snd ?r))
              = (dom (diagnosticCollection ?mw)
                   - (if entries = [] \<and> u \<in> dom (diagnosticCollection ed) then {u} else {}))
                  \<union> flagged_keys h ws cfg entries"
    and single_values: "no_empty_entry (diagnosticCollection ?mw) \<longrightarrow>
              no_empty_entry (diagnosticCollection (snd ?r))"
    if F: "filePath = Some F'" "F' \<noteq> []" "Uri_file h F' = Inr u" for F' u
  proof -
    let ?ed1 = "if entries = [] \<and> diagnosticCollection ed u \<noteq> None
              then ?mw\<lparr>diagnosticCollection := (diagnosticCollection ?mw)(u := None)\<rparr> else ?mw"
    from assms(1) F
    have i: "invoke h (prepareCommand ws cfg (Some F')) progress ?mw = Inr stdout" by simp
    have r: "?r = processOutput h ws cfg parsed ?ed1"
      using runAnalysis_single [OF F(2,3) i assms(2,3)] F by simp
    with assms(4) have "fst (processOutput h ws cfg parsed ?ed1) = Resolved (Some b)" by simp
    from processOutput_dom [OF assms(3) this] r
    have "dom (diagnosticCollection (snd ?r))
        = dom (diagnosticCollection ?ed1) \<union> flagged_keys h ws cfg entries"
      by simp
    moreover have "dom (diagnosticCollection ?ed1)
        = dom (diagnosticCollection ?mw)
            - (if entries = [] \<and> u \<in> dom (diagnosticCollection ed) then {u} else {})"
      by auto
    ultimately show "dom (diagnosticCollection (snd ?r))
              = (dom (diagnosticCollection ?mw)
                   - (if entries = [] \<and> u \<in> dom (diagnosticCollection ed) then {u} else {}))
                  \<union> flagged_keys h ws cfg entries"
      by simp
    show "no_empty_entry (diagnosticCollection ?mw) \<longrightarrow>
              no_empty_entry (diagnosticCollection (snd ?r))"
    proof
      assume "no_empty_entry (diagnosticCollection ?mw)"
      then have "no_empty_entry (diagnosticCollection ?ed1)"
        by (simp add: no_empty_entry_def)
      from processOutput_no_empty [OF this] r
      show "no_empty_entry (diagnosticCollection (snd ?r))" by simp
    qed
  qed
  have entries_nonempty: "no_empty_entry (diagnosticCollection (snd ?r))"
    if "\<not> truthy filePath \<or> no_empty_entry (diagnosticCollection ?mw)"
  proof (cases "truthy filePath")
    case False
    then show ?thesis by (rule whole_values)
  next
    case True
    then obtain F' where F: "filePath = Some F'" "F' \<noteq> []"
      by (cases filePath) (auto simp: truthy_def)
    show ?thesis
    proof (cases "check_of h filePath ed")
      case (Inl e)
      then have "fst ?r = Rejected e" by (simp add: runAnalysis_def)
      with assms(4) show ?thesis by simp
    next
      case (Inr c)
      with F obtain u where "Uri_file h F' = Inr u"
        by (cases "Uri_file h F'") (auto simp: check_of_def truthy_def)
      from single_values [OF F this] that True show ?thesis by simp
    qed
  qed
  from whole_dom single_dom entries_nonempty show ?thesis by blast
qed

text \<open>
  Witness for C1: the editor shows a diagnostic for \<^verbatim>\<open>Bar.php\<close> and the pass prints the
  example report. After a whole-project pass the store holds \<^verbatim>\<open>Foo.php\<close> only; after a
  single-file pass on \<^verbatim>\<open>Foo.php\<close> it holds both files, neither with an empty list.
\<close>

theorem store_after_completed_pass_witness:
  "dom (diagnosticCollection
         (snd (runAnalysis (example_host (Exited ''out'') ''out'' example_report) example_ws
                example_config True None (editor_with bar_uri))))
     = {foo_uri}
   \<and> dom (diagnosticCollection
         (snd (runAnalysis (example_host (Exited ''out'') ''out'' example_report) example_ws
                example_config False (Some ''/home/user/proj/src/Foo.php'')
                (editor_with bar_uri))))
     = {bar_uri, foo_uri}
   \<and> no_empty_entry (diagnosticCollection
         (snd (runAnalysis (example_host (Exited ''out'') ''out'' example_report) example_ws
                example_config False (Some ''/home/user/proj/src/Foo.php'')
                (editor_with bar_uri))))"
proof -
  let ?h = "example_host (Exited ''out'') ''out'' example_report"
  let ?ed = "editor_with bar_uri"
  let ?foo = "''/home/user/proj/src/Foo.php''"
  let ?entries = "[(''/app/src/Foo.php'', WithMessages (MessageArray [Some example_violation]))]"
  have i1: "invoke ?h (prepareCommand example_ws example_config None) True (meanwhile ?h ?ed)
      = Inr ''out''"
    and i2: "invoke ?h (prepareCommand example_ws example_config (Some ?foo)) False (meanwhile ?h ?ed)
      = Inr ''out''"
    by (simp_all add: invoke_def)
  have p: "JSON_parse ?h ''out'' = Some example_report"
    by simp
  have f: "files example_report = Files ?entries"
    by (simp add: example_report_def)
  have k: "replace ''/app/src/Foo.php'' (dockerVolumePath example_config) example_ws = ?foo"
    by (simp add: example_config_def example_ws_def replace_def)
  have r1: "fst (runAnalysis ?h example_ws example_config True None ?ed) = Resolved (Some True)"
    by (simp add: runAnalysis_def check_of_def invoke_def truthy_def example_report_def
        handle_def processOutput_def Let_def diagnostic_of_def example_violation_def k)
  have r2: "fst (runAnalysis ?h example_ws example_config False (Some ?foo) ?ed) = Resolved (Some True)"
    by (simp add: runAnalysis_def check_of_def invoke_def truthy_def example_report_def
        processOutput_def Let_def diagnostic_of_def example_violation_def k)
  have fl: "flagged_keys ?h example_ws example_config ?entries = {foo_uri}"
    by (simp add: flagged_keys_def)
  have ne: "no_empty_entry (diagnosticCollection (meanwhile ?h ?ed))"
    by (simp add: no_empty_entry_def editor_with_def)
  have d: "dom (diagnosticCollection (meanwhile ?h ?ed)) = {bar_uri}"
    by (simp add: editor_with_def)
  have u: "Uri_file ?h ?foo = Inr foo_uri" by simp
  show ?thesis
    using store_after_completed_pass [OF i1 p f r1, of ?foo foo_uri]
      store_after_completed_pass [OF i2 p f r2, of ?foo foo_uri] fl ne d u
    by (auto simp: truthy_def)
qed

section \<open>A failure in the write loop\<close>

text \<open>
  The write loop of \<^verbatim>\<open>processOutput\<close> (lines 177 to 180) calls \<^verbatim>\<open>Uri.file\<close> for every key of
  its map, and \<^verbatim>\<open>Uri.file\<close> throws for a path such as \<^verbatim>\<open>////x.php\<close>. A single-file pass from an
  empty store over a report that has findings for \<^verbatim>\<open>Foo.php\<close> and then for such a path is
  rejected, and the entry written for \<^verbatim>\<open>Foo.php\<close> before the failure stays.
\<close>

theorem write_loop_failure_keeps_earlier_entries:
  "fst (runAnalysis (example_host (Exited ''out'') ''out'' refused_path_report) example_ws
          example_config False (Some ''/home/user/proj/src/Foo.php'') empty_editor)
     = Rejected UriError
   \<and> dom (diagnosticCollection
        (snd (runAnalysis (example_host (Exited ''out'') ''out'' refused_path_report) example_ws
               example_config False (Some ''/home/user/proj/src/Foo.php'') empty_editor)))
     = {foo_uri}
   \<and> dom (diagnosticCollection empty_editor) = {}"
proof -
  have r: "replace ''/app/src/Foo.php'' (dockerVolumePath example_config) example_ws
       = ''/home/user/proj/src/Foo.php''"
    "replace ''////x.php'' (dockerVolumePath example_config) example_ws = ''////x.php''"
    by (simp_all add: example_config_def example_ws_def replace_def)
  have u: "example_Uri_file ''////x.php'' = Inl UriError"
    by (simp add: example_Uri_file_def)
  show ?thesis
    by (simp add: runAnalysis_def check_of_def invoke_def truthy_def refused_path_report_def
        processOutput_def empty_editor_def diagnostic_of_def example_violation_def r u)
qed

end
